theory Spec2Isabelle
  imports Main "HOL-Library.Word" "HOL-Library.Sublist"
begin

unbundle bit_operations_syntax

section \<open>Timelock recipient and identity of tlock (tlock\_age.go)\<close>

text \<open>
  The file \<^verbatim>\<open>tlock_age.go\<close> implements the age \<^verbatim>\<open>Recipient\<close> (\<^verbatim>\<open>Wrap\<close>) and
  \<^verbatim>\<open>Identity\<close> (\<^verbatim>\<open>Unwrap\<close>) of timelock encryption. Byte slices are lists of 8-bit
  words, round numbers are 64-bit words, Go strings are HOL strings. Every function that
  returns \<^verbatim>\<open>(value, error)\<close> returns a sum here, \<open>Inl\<close> holding the error.
\<close>

type_synonym byte = "8 word"
type_synonym bytes = "byte list"
type_synonym u32 = "32 word"
type_synonym u64 = "64 word"

subsection \<open>Errors\<close>

text \<open>
  Go error values. \<open>ErrIncorrectIdentity\<close> is the sentinel \<^verbatim>\<open>age.ErrIncorrectIdentity\<close>,
  \<open>ErrSyntax\<close> and \<open>ErrRange\<close> are the sentinels of \<^verbatim>\<open>strconv\<close>, and
  \<open>NumError\<close> is \<^verbatim>\<open>*strconv.NumError\<close> (function name, input, wrapped cause).
  \<open>ErrorsNew\<close> is an error made by \<^verbatim>\<open>errors.New\<close> at a call site,
  \<open>Errorf\<close> one made by \<^verbatim>\<open>fmt.Errorf\<close> with no \<^verbatim>\<open>%w\<close> verb (the formatted
  message), and \<open>Wrapf\<close> one made by \<^verbatim>\<open>fmt.Errorf\<close> with a \<^verbatim>\<open>%w\<close> verb (the
  format string and the wrapped error). \<open>LibError\<close> stands for an opaque error of
  the pairing or beacon libraries.
\<close>

text \<open>
  Modelled from the spec: the sentinel \<^verbatim>\<open>ErrTooEarly\<close> is declared in the package
  file \<^verbatim>\<open>tlock.go\<close>, which is not part of \<^verbatim>\<open>tlock_age.go\<close>; the spec calls it the
  \<^verbatim>\<open>TooEarly\<close> sentinel, a plain error value distinct from every other one, and the
  tests compare with it through \<^verbatim>\<open>errors.Is\<close>.
\<close>

datatype err =
    ErrTooEarly
  | ErrIncorrectIdentity
  | ErrSyntax
  | ErrRange
  | NumError string string err
  | ErrorsNew string
  | Errorf string
  | Wrapf string err
  | LibError string

text \<open>
  \<^verbatim>\<open>errors.Is(err, target)\<close>: walks the \<^verbatim>\<open>Unwrap\<close> chain of \<open>err\<close> and compares
  each link with the target. Only \<open>Wrapf\<close> and \<open>NumError\<close> have an \<^verbatim>\<open>Unwrap\<close>
  method.
\<close>

fun errors_Is :: "err \<Rightarrow> err \<Rightarrow> bool" where
  "errors_Is (Wrapf m e) target = (Wrapf m e = target \<or> errors_Is e target)"
| "errors_Is (NumError f n e) target = (NumError f n e = target \<or> errors_Is e target)"
| "errors_Is e target = (e = target)"

subsection \<open>Data model\<close>

text \<open>The constants that define the size of the different cipherDEK fields.\<close>

definition kyberPointLen :: nat where "kyberPointLen = 48"
definition cipherVLen :: nat where "cipherVLen = 16"
definition cipherWLen :: nat where "cipherWLen = 16"

text \<open>The struct \<^verbatim>\<open>cipherDEK\<close>: the encrypted data encryption key.\<close>

record cipherDEK =
  kyberPoint :: bytes
  cipherV :: bytes
  cipherW :: bytes

text \<open>\<^verbatim>\<open>age.Stanza\<close>: a section of the age header.\<close>

record stanza =
  Type :: string
  Args :: "string list"
  Body :: bytes

text \<open>\<^verbatim>\<open>ibe.Ciphertext\<close>: the point \<open>U\<close> and the two masked byte strings.\<close>

record 'g1 ciphertext =
  U :: 'g1
  V :: bytes
  W :: bytes

text \<open>\<^verbatim>\<open>chain.Beacon\<close> as \<^verbatim>\<open>decryptDEK\<close> fills it, and \<^verbatim>\<open>scheme.Scheme\<close>.\<close>

record beacon =
  Round :: u64
  Signature :: bytes

record scheme =
  ID :: string
  DecouplePrevSig :: bool

definition UnchainedSchemeID :: string where
  "UnchainedSchemeID = ''pedersen-bls-unchained''"

text \<open>
  Modelled from the spec: the interface \<^verbatim>\<open>Network\<close> is declared in \<^verbatim>\<open>tlock.go\<close>,
  which is not part of \<^verbatim>\<open>tlock_age.go\<close>. The spec gives it the operations
  \<^verbatim>\<open>public_key() -> G1\<close>, \<^verbatim>\<open>chain_hash() -> hex-string\<close> and
  \<^verbatim>\<open>is_ready_to_decrypt(round) -> (signature_bytes, bool)\<close>; these are the three
  methods that \<^verbatim>\<open>tlock_age.go\<close> calls. The handle is read-only for the core, so each
  method is a function.
\<close>

record 'g1 network =
  PublicKey :: 'g1
  ChainHash :: string
  IsReadyToDecrypt :: "u64 \<Rightarrow> bytes \<times> bool"

text \<open>
  The operations of the pairing library (kyber, kyber-bls12381) and of the beacon
  verifier (drand) that the file calls. They are outside the repository and are
  parameters of the model: \<open>'g1\<close> and \<open>'g2\<close> are the types of points of the two
  groups. \<open>chain_VerifyBeacon\<close> returns \<open>None\<close> for a nil error.
\<close>

record ('g1, 'g2) crypto =
  ibe_Encrypt :: "'g1 \<Rightarrow> bytes \<Rightarrow> bytes \<Rightarrow> err + 'g1 ciphertext"
  g1_MarshalBinary :: "'g1 \<Rightarrow> err + bytes"
  chain_VerifyBeacon :: "scheme \<Rightarrow> beacon \<Rightarrow> 'g1 \<Rightarrow> err option"
  g2_UnmarshalBinary :: "bytes \<Rightarrow> err + 'g2"
  g1_UnmarshalBinary :: "bytes \<Rightarrow> err + 'g1"
  ibe_Decrypt :: "'g2 \<Rightarrow> 'g1 ciphertext \<Rightarrow> err + bytes"

subsection \<open>Go built-ins and the standard library\<close>

text \<open>
  The built-in \<^verbatim>\<open>copy(dst, src)\<close> overwrites the first
  \<^verbatim>\<open>min(len(dst), len(src))\<close> elements of \<open>dst\<close> and reports no error when the
  lengths differ. \<open>copy_at dst off src\<close> is \<^verbatim>\<open>copy(dst[off:], src)\<close> seen from
  \<open>dst\<close>.
\<close>

definition go_copy :: "'a list \<Rightarrow> 'a list \<Rightarrow> 'a list" where
  "go_copy dst src = (let n = min (length dst) (length src) in take n src @ drop n dst)"

definition copy_at :: "'a list \<Rightarrow> nat \<Rightarrow> 'a list \<Rightarrow> 'a list" where
  "copy_at dst off src = take off dst @ go_copy (drop off dst) src"

text \<open>Decimal digits of a natural number, as \<^verbatim>\<open>%d\<close> and \<^verbatim>\<open>FormatUint(_, 10)\<close> print them.\<close>

fun decimal :: "nat \<Rightarrow> string" where
  "decimal n =
     (if n < 10 then [''0123456789'' ! n] else decimal (n div 10) @ [''0123456789'' ! (n mod 10)])"

declare decimal.simps [simp del]

definition FormatUint :: "u64 \<Rightarrow> string" where
  "FormatUint u = decimal (unat u)"

text \<open>
  The spec's words for the first argument of the stanza, "the round as decimal ASCII":
  the number that a string of decimal digits denotes.
\<close>

fun decimal_value :: "string \<Rightarrow> nat" where
  "decimal_value [] = 0"
| "decimal_value (c # cs) = (of_char c - 48) * 10 ^ length cs + decimal_value cs"

text \<open>
  \<^verbatim>\<open>strconv.ParseUint(s, 10, 64)\<close>: the empty string is a syntax error; the loop reads
  the bytes from the left, a byte that is no decimal digit is a syntax error, and a
  value that leaves 64 bits is a range error. \<open>cutoff\<close> is \<^verbatim>\<open>maxUint64/10 + 1\<close>
  and \<open>maxVal\<close> is \<^verbatim>\<open>uint64(1)<<64 - 1\<close>, computed in 64 bits.
\<close>

definition cutoff :: u64 where
  "cutoff = 1844674407370955162"

definition maxVal :: u64 where
  "maxVal = push_bit 64 1 - 1"

fun ParseUint_loop :: "string \<Rightarrow> u64 \<Rightarrow> err + u64" where
  "ParseUint_loop [] n = Inr n"
| "ParseUint_loop (c # cs) n =
     (if \<not> (48 \<le> (of_char c :: nat) \<and> (of_char c :: nat) \<le> 57) then Inl ErrSyntax
      else if n \<ge> cutoff then Inl ErrRange
      else let n' = n * 10; n1 = n' + of_nat (of_char c - 48) in
        if n1 < n' \<or> n1 > maxVal then Inl ErrRange else ParseUint_loop cs n1)"

definition ParseUint :: "string \<Rightarrow> err + u64" where
  "ParseUint s =
     (if s = [] then Inl (NumError ''ParseUint'' s ErrSyntax)
      else case ParseUint_loop s 0 of
        Inl e \<Rightarrow> Inl (NumError ''ParseUint'' s e)
      | Inr n \<Rightarrow> Inr n)"

subsection \<open>SHA-256 and the encoding of a round\<close>

text \<open>
  \<^verbatim>\<open>crypto/sha256\<close> belongs to the Go standard library; the function it computes is
  that of FIPS 180-4, which is what is written here: padding, the message schedule of
  each 64-byte block, 64 rounds of compression, and the digest as the eight state words
  in big-endian order. The 64 round constants and the initial state are written in
  decimal: they are the first 32 bits of the fractional parts of the cube roots of the
  first 64 primes, and of the square roots of the first 8 primes.
\<close>

definition sha256_K :: "u32 list" where
  "sha256_K =
    [1116352408, 1899447441, 3049323471, 3921009573, 961987163, 1508970993,
     2453635748, 2870763221, 3624381080, 310598401, 607225278, 1426881987,
     1925078388, 2162078206, 2614888103, 3248222580, 3835390401, 4022224774,
     264347078, 604807628, 770255983, 1249150122, 1555081692, 1996064986,
     2554220882, 2821834349, 2952996808, 3210313671, 3336571891, 3584528711,
     113926993, 338241895, 666307205, 773529912, 1294757372, 1396182291,
     1695183700, 1986661051, 2177026350, 2456956037, 2730485921, 2820302411,
     3259730800, 3345764771, 3516065817, 3600352804, 4094571909, 275423344,
     430227734, 506948616, 659060556, 883997877, 958139571, 1322822218,
     1537002063, 1747873779, 1955562222, 2024104815, 2227730452, 2361852424,
     2428436474, 2756734187, 3204031479, 3329325298]"

type_synonym sha256_state = "u32 \<times> u32 \<times> u32 \<times> u32 \<times> u32 \<times> u32 \<times> u32 \<times> u32"

definition sha256_init :: sha256_state where
  "sha256_init =
    (1779033703, 3144134277, 1013904242, 2773480762,
     1359893119, 2600822924, 528734635, 1541459225)"

definition be32 :: "u32 \<Rightarrow> bytes" where
  "be32 x = [ucast (drop_bit 24 x), ucast (drop_bit 16 x), ucast (drop_bit 8 x), ucast x]"

fun words_of :: "bytes \<Rightarrow> u32 list" where
  "words_of (a # b # c # d # rest) =
     (push_bit 24 (ucast a) OR push_bit 16 (ucast b) OR push_bit 8 (ucast c) OR ucast d)
       # words_of rest"
| "words_of _ = []"

fun schedule :: "nat \<Rightarrow> u32 list \<Rightarrow> u32 list" where
  "schedule 0 w = w"
| "schedule (Suc n) w =
     (let t = length w;
          v1 = w ! (t - 2); v0 = w ! (t - 15);
          s1 = word_rotr 17 v1 XOR word_rotr 19 v1 XOR drop_bit 10 v1;
          s0 = word_rotr 7 v0 XOR word_rotr 18 v0 XOR drop_bit 3 v0
      in schedule n (w @ [s1 + w ! (t - 7) + s0 + w ! (t - 16)]))"

fun sha256_round :: "sha256_state \<Rightarrow> u32 \<times> u32 \<Rightarrow> sha256_state" where
  "sha256_round (a, b, c, d, e, f, g, h) (k, w) =
     (let t1 = h + (word_rotr 6 e XOR word_rotr 11 e XOR word_rotr 25 e)
                 + ((e AND f) XOR (NOT e AND g)) + k + w;
          t2 = (word_rotr 2 a XOR word_rotr 13 a XOR word_rotr 22 a)
                 + ((a AND b) XOR (a AND c) XOR (b AND c))
      in (t1 + t2, a, b, c, d + t1, e, f, g))"

fun sha256_add :: "sha256_state \<Rightarrow> sha256_state \<Rightarrow> sha256_state" where
  "sha256_add (a, b, c, d, e, f, g, h) (a', b', c', d', e', f', g', h') =
     (a + a', b + b', c + c', d + d', e + e', f + f', g + g', h + h')"

definition sha256_block :: "sha256_state \<Rightarrow> bytes \<Rightarrow> sha256_state" where
  "sha256_block st blk =
     sha256_add st (foldl sha256_round st (zip sha256_K (schedule 48 (words_of blk))))"

function sha256_blocks :: "sha256_state \<Rightarrow> bytes \<Rightarrow> sha256_state" where
  "sha256_blocks st m =
     (if length m < 64 then st else sha256_blocks (sha256_block st (take 64 m)) (drop 64 m))"
  by pat_completeness auto
termination
  by (relation "measure (\<lambda>(st, m). length m)") auto

declare sha256_blocks.simps [simp del]

text \<open>
  \<^verbatim>\<open>chain.RoundToBytes\<close> of drand writes the round with \<^verbatim>\<open>binary.BigEndian\<close>: eight
  bytes, the most significant first. The same encoding ends the SHA-256 padding (the
  message length in bits).
\<close>

definition RoundToBytes :: "u64 \<Rightarrow> bytes" where
  "RoundToBytes r = map (\<lambda>i. ucast (drop_bit (8 * (7 - i)) r)) [0..<8]"

definition sha256_pad :: "bytes \<Rightarrow> bytes" where
  "sha256_pad m =
     m @ [0x80] @ replicate ((119 - length m mod 64) mod 64) 0
       @ RoundToBytes (of_nat (8 * length m))"

fun sha256_digest :: "sha256_state \<Rightarrow> bytes" where
  "sha256_digest (a, b, c, d, e, f, g, h) =
     be32 a @ be32 b @ be32 c @ be32 d @ be32 e @ be32 f @ be32 g @ be32 h"

definition SHA256 :: "bytes \<Rightarrow> bytes" where
  "SHA256 m = sha256_digest (sha256_blocks sha256_init (sha256_pad m))"

text \<open>
  The \<^verbatim>\<open>hash.Hash\<close> object returned by \<^verbatim>\<open>sha256.New()\<close>, as the bytes written so
  far. \<^verbatim>\<open>Write\<close> appends and, as the interface documents, never returns an error;
  \<^verbatim>\<open>Sum(b)\<close> appends the digest of what was written to \<open>b\<close>.
\<close>

definition sha256_New :: bytes where
  "sha256_New = []"

definition sha256_Write :: "bytes \<Rightarrow> bytes \<Rightarrow> bytes \<times> nat \<times> err option" where
  "sha256_Write h p = (h @ p, length p, None)"

definition sha256_Sum :: "bytes \<Rightarrow> bytes \<Rightarrow> bytes" where
  "sha256_Sum h b = b @ SHA256 h"

text \<open>
  The spec's words for the identity: the 8-byte big-endian encoding of the round, read
  off the number itself (byte \<open>i\<close> is the digit of weight \<open>256 ^ (7 - i)\<close>).
\<close>

definition big_endian_u64 :: "u64 \<Rightarrow> bytes" where
  "big_endian_u64 r = map (\<lambda>i. of_nat ((unat r div 256 ^ (7 - i)) mod 256)) [0..<8]"

subsection \<open>The recipient: Wrap\<close>

text \<open>\<^verbatim>\<open>calculateEncryptionID\<close> generates the id required for encryption.\<close>

definition calculateEncryptionID :: "u64 \<Rightarrow> err + bytes" where
  "calculateEncryptionID roundNumber =
     (case sha256_Write sha256_New (RoundToBytes roundNumber) of
        (h, _, Some e) \<Rightarrow> Inl (Wrapf ''sha256 write: %w'' e)
      | (h, _, None) \<Rightarrow> Inr (sha256_Sum h []))"

text \<open>
  The body of the stanza, as \<^verbatim>\<open>Wrap\<close> builds it: a zeroed slice of
  \<open>kyberPointLen + cipherVLen + cipherWLen\<close> bytes, then three \<^verbatim>\<open>copy\<close> calls at
  the offsets \<open>0\<close>, \<open>kyberPointLen\<close> and \<open>kyberPointLen + cipherVLen\<close>.
\<close>

definition cipherDEK_bytes :: "bytes \<Rightarrow> bytes \<Rightarrow> bytes \<Rightarrow> bytes" where
  "cipherDEK_bytes kp v w =
     (let d0 = replicate (kyberPointLen + cipherVLen + cipherWLen) 0;
          d1 = go_copy d0 kp;
          d2 = copy_at d1 kyberPointLen v;
          d3 = copy_at d2 (kyberPointLen + cipherVLen) w
      in d3)"

text \<open>
  \<^verbatim>\<open>Wrap\<close> of \<^verbatim>\<open>tleRecipient\<close>; the two fields of the receiver, \<open>network\<close> and
  \<open>round\<close>, are the arguments \<open>net\<close> and \<open>rnd\<close>.
\<close>

definition Wrap :: "('g1, 'g2) crypto \<Rightarrow> 'g1 network \<Rightarrow> u64 \<Rightarrow> bytes \<Rightarrow> err + stanza list" where
  "Wrap cr net rnd fileKey =
     (case calculateEncryptionID rnd of
        Inl e \<Rightarrow> Inl (Wrapf ''round by number: %w'' e)
      | Inr ident \<Rightarrow>
          (case ibe_Encrypt cr (PublicKey net) ident fileKey of
             Inl e \<Rightarrow> Inl (Wrapf ''encrypt dek: %w'' e)
           | Inr cipherText \<Rightarrow>
               (case g1_MarshalBinary cr (U cipherText) of
                  Inl e \<Rightarrow> Inl (Wrapf ''marshal kyber point: %w'' e)
                | Inr kp \<Rightarrow>
                    Inr [\<lparr>Type = ''tlock'',
                          Args = [FormatUint rnd, ChainHash net],
                          Body = cipherDEK_bytes kp (V cipherText) (W cipherText)\<rparr>])))"

subsection \<open>The identity: Unwrap\<close>

text \<open>
  \<^verbatim>\<open>parseCipherDEK\<close> parses the stanza body constructed in \<^verbatim>\<open>Wrap\<close> back to the
  cipherDEK. The third buffer is made with \<open>cipherVLen\<close>, as in the source.
\<close>

definition parseCipherDEK :: "bytes \<Rightarrow> err + cipherDEK" where
  "parseCipherDEK stanzaBody =
     (let expLen = kyberPointLen + cipherVLen + cipherWLen in
      if length stanzaBody \<noteq> expLen then
        Inl (Errorf (''incorrect length: exp: '' @ decimal expLen @ '' got: ''
                       @ decimal (length stanzaBody)))
      else
        Inr \<lparr>kyberPoint = go_copy (replicate kyberPointLen 0) (take kyberPointLen stanzaBody),
             cipherV = go_copy (replicate cipherVLen 0)
                         (take cipherVLen (drop kyberPointLen stanzaBody)),
             cipherW = go_copy (replicate cipherVLen 0)
                         (drop (kyberPointLen + cipherVLen) stanzaBody)\<rparr>)"

text \<open>
  The steps of \<^verbatim>\<open>Unwrap\<close> and \<^verbatim>\<open>decryptDEK\<close>, in the words of the spec's state
  machine, with the two point decodings that the source has between the verification of
  the beacon and the IBE decryption. Both functions return, next to their result, the
  list of the steps they ran, in order: \<open>CheckType\<close> is the test of the stanza type,
  \<open>CheckArgs\<close> the test of the number of arguments, \<open>ParseRound\<close> the call of
  \<^verbatim>\<open>strconv.ParseUint\<close>, \<open>CheckChain\<close> the comparison of the chain hashes,
  \<open>ParseBody\<close> the call of \<^verbatim>\<open>parseCipherDEK\<close>, \<open>QueryNetwork\<close> the call of
  \<^verbatim>\<open>IsReadyToDecrypt\<close>, \<open>VerifyBeacon\<close> the call of \<^verbatim>\<open>VerifyBeacon\<close>,
  \<open>UnmarshalG2\<close> and \<open>UnmarshalG1\<close> the calls of \<^verbatim>\<open>UnmarshalBinary\<close>, and
  \<open>IBEDecrypt\<close> the call of \<^verbatim>\<open>ibe.Decrypt\<close>.
\<close>

datatype step =
    CheckType | CheckArgs | ParseRound | CheckChain | ParseBody
  | QueryNetwork | VerifyBeacon | UnmarshalG2 | UnmarshalG1 | IBEDecrypt

text \<open>
  \<^verbatim>\<open>decryptDEK\<close> attempts to decrypt an encrypted DEK against the provided network for
  the specified round.
\<close>

definition decryptDEK ::
  "('g1, 'g2) crypto \<Rightarrow> cipherDEK \<Rightarrow> 'g1 network \<Rightarrow> u64 \<Rightarrow> step list \<times> (err + bytes)" where
  "decryptDEK cr cd net roundNumber =
     (let (ident, ready) = IsReadyToDecrypt net roundNumber in
      if \<not> ready then ([QueryNetwork], Inl ErrTooEarly)
      else
        let b = \<lparr>Round = roundNumber, Signature = ident\<rparr>;
            sch = \<lparr>ID = UnchainedSchemeID, DecouplePrevSig = True\<rparr>
        in case chain_VerifyBeacon cr sch b (PublicKey net) of
             Some e \<Rightarrow> ([QueryNetwork, VerifyBeacon], Inl (Wrapf ''verify beacon: %w'' e))
           | None \<Rightarrow>
               (case g2_UnmarshalBinary cr ident of
                  Inl e \<Rightarrow> ([QueryNetwork, VerifyBeacon, UnmarshalG2],
                            Inl (Wrapf ''unmarshal kyber G2: %w'' e))
                | Inr signature \<Rightarrow>
                    (case g1_UnmarshalBinary cr (kyberPoint cd) of
                       Inl e \<Rightarrow> ([QueryNetwork, VerifyBeacon, UnmarshalG2, UnmarshalG1],
                                 Inl (Wrapf ''unmarshal kyber G1: %w'' e))
                     | Inr kp \<Rightarrow>
                         (case ibe_Decrypt cr signature
                                 \<lparr>U = kp, V = cipherV cd, W = cipherW cd\<rparr> of
                            Inl e \<Rightarrow>
                              ([QueryNetwork, VerifyBeacon, UnmarshalG2, UnmarshalG1, IBEDecrypt],
                               Inl (Wrapf ''decrypt dek: %w'' e))
                          | Inr fileKey \<Rightarrow>
                              ([QueryNetwork, VerifyBeacon, UnmarshalG2, UnmarshalG1, IBEDecrypt],
                               Inr fileKey)))))"

text \<open>
  \<^verbatim>\<open>Unwrap\<close> of \<^verbatim>\<open>tleIdentity\<close>; the field \<open>network\<close> of the receiver is the
  argument \<open>net\<close>. The stanzas are the values the pointers of the slice point to.
\<close>

definition Unwrap ::
  "('g1, 'g2) crypto \<Rightarrow> 'g1 network \<Rightarrow> stanza list \<Rightarrow> step list \<times> (err + bytes)" where
  "Unwrap cr net stanzas =
     (if length stanzas \<noteq> 1 then ([], Inl (ErrorsNew ''check stanzas length: should be one''))
      else
        let stanza = stanzas ! 0 in
        if Type stanza \<noteq> ''tlock'' then
          ([CheckType], Inl (Wrapf ''check stanza type: wrong type: %w'' ErrIncorrectIdentity))
        else if length (Args stanza) \<noteq> 2 then
          ([CheckType, CheckArgs],
           Inl (Wrapf ''check stanza args: should be two: %w'' ErrIncorrectIdentity))
        else
          (case ParseUint (Args stanza ! 0) of
             Inl e \<Rightarrow>
               ([CheckType, CheckArgs, ParseRound], Inl (Wrapf ''parse block round: %w'' e))
           | Inr blockRound \<Rightarrow>
               if ChainHash net \<noteq> Args stanza ! 1 then
                 ([CheckType, CheckArgs, ParseRound, CheckChain],
                  Inl (ErrorsNew ''wrong chainhash''))
               else
                 (case parseCipherDEK (Body stanza) of
                    Inl e \<Rightarrow>
                      ([CheckType, CheckArgs, ParseRound, CheckChain, ParseBody],
                       Inl (Wrapf ''parse cipher dek: %w'' e))
                  | Inr cd \<Rightarrow>
                      (case decryptDEK cr cd net blockRound of
                         (tr, Inl e) \<Rightarrow>
                           ([CheckType, CheckArgs, ParseRound, CheckChain, ParseBody] @ tr,
                            Inl (Wrapf ''decrypt dek: %w'' e))
                       | (tr, Inr fileKey) \<Rightarrow>
                           ([CheckType, CheckArgs, ParseRound, CheckChain, ParseBody] @ tr,
                            Inr fileKey)))))"

text \<open>The order of the steps of a run that returns a file key.\<close>

definition decrypt_steps :: "step list" where
  "decrypt_steps = [QueryNetwork, VerifyBeacon, UnmarshalG2, UnmarshalG1, IBEDecrypt]"

definition unwrap_steps :: "step list" where
  "unwrap_steps =
     [CheckType, CheckArgs, ParseRound, CheckChain, ParseBody,
      QueryNetwork, VerifyBeacon, UnmarshalG2, UnmarshalG1, IBEDecrypt]"

subsection \<open>A concrete network and library\<close>

text \<open>
  An instance of the parameters on which the functions can be evaluated. The network
  carries the chain hash of the test suite (\<^verbatim>\<open>testnetChainHash\<close>) and has published
  the rounds up to 100, the rounds 51 to 100 with a forged signature. The library
  represents a point by its encoding, accepts the beacon signature \<open>[7]\<close> under the
  public key \<open>[1]\<close>, and masks nothing.
\<close>

definition testnetChainHash :: string where
  "testnetChainHash = ''7672797f548f3f4748ac4bf3352fc6c6b6468c9ad40ad456a397545c6e2df5bf''"

definition toy_network :: "bytes network" where
  "toy_network =
     \<lparr>PublicKey = [1],
      ChainHash = testnetChainHash,
      IsReadyToDecrypt =
        (\<lambda>r. if r \<le> 50 then ([7], True) else if r \<le> 100 then ([8], True) else ([], False))\<rparr>"

definition toy_crypto :: "(bytes, bytes) crypto" where
  "toy_crypto =
     \<lparr>ibe_Encrypt = (\<lambda>pk ident msg. Inr \<lparr>U = replicate 48 3, V = replicate 16 2, W = msg\<rparr>),
      g1_MarshalBinary = (\<lambda>p. Inr p),
      chain_VerifyBeacon =
        (\<lambda>sch b pk. if Signature b = [7] \<and> pk = [1] then None
                     else Some (LibError ''invalid signature'')),
      g2_UnmarshalBinary = (\<lambda>bs. Inr bs),
      g1_UnmarshalBinary = (\<lambda>bs. Inr bs),
      ibe_Decrypt = (\<lambda>sig ct. Inr (W ct))\<rparr>"

text \<open>Stanzas for the rounds 5 (published) and 1000 (not yet published).\<close>

definition stanza_round5 :: stanza where
  "stanza_round5 =
     \<lparr>Type = ''tlock'', Args = [''5'', testnetChainHash],
      Body = replicate 48 3 @ replicate 16 2 @ replicate 16 9\<rparr>"

definition stanza_round1000 :: stanza where
  "stanza_round1000 =
     \<lparr>Type = ''tlock'', Args = [''1000'', testnetChainHash],
      Body = replicate 48 3 @ replicate 16 2 @ replicate 16 9\<rparr>"

text \<open>
  The stanza of round 1000 with its body truncated to 79 bytes, a stanza with a single
  argument, and the network under another chain hash.
\<close>

definition stanza_truncated :: stanza where
  "stanza_truncated =
     \<lparr>Type = ''tlock'', Args = [''1000'', testnetChainHash], Body = replicate 79 3\<rparr>"

definition stanza_one_arg :: stanza where
  "stanza_one_arg =
     \<lparr>Type = ''tlock'', Args = [''5''],
      Body = replicate 48 3 @ replicate 16 2 @ replicate 16 9\<rparr>"

definition other_network :: "bytes network" where
  "other_network = toy_network\<lparr>ChainHash := ''8990e7a9aaed2ffed73dbd7092123d6f289930540d7651336225dc172e51b2ce''\<rparr>"

text \<open>The cipherDEK that \<^verbatim>\<open>parseCipherDEK\<close> reads from the two stanzas above.\<close>

definition cd5 :: cipherDEK where
  "cd5 = \<lparr>kyberPoint = replicate 48 3, cipherV = replicate 16 2, cipherW = replicate 16 9\<rparr>"

text \<open>
  A stanza of another recipient type, a stanza whose round does not parse, and three
  libraries that fail at one call each: the decoding of the signature, the decoding of
  the point, and the IBE decryption.
\<close>

definition stanza_x25519 :: stanza where
  "stanza_x25519 =
     \<lparr>Type = ''X25519'', Args = [''5'', testnetChainHash],
      Body = replicate 48 3 @ replicate 16 2 @ replicate 16 9\<rparr>"

definition stanza_bad_round :: stanza where
  "stanza_bad_round =
     \<lparr>Type = ''tlock'', Args = [''12a'', testnetChainHash],
      Body = replicate 48 3 @ replicate 16 2 @ replicate 16 9\<rparr>"

definition crypto_bad_g2 :: "(bytes, bytes) crypto" where
  "crypto_bad_g2 = toy_crypto\<lparr>g2_UnmarshalBinary := (\<lambda>bs. Inl (LibError ''bad G2 point''))\<rparr>"

definition crypto_bad_g1 :: "(bytes, bytes) crypto" where
  "crypto_bad_g1 = toy_crypto\<lparr>g1_UnmarshalBinary := (\<lambda>bs. Inl (LibError ''bad G1 point''))\<rparr>"

definition crypto_bad_decrypt :: "(bytes, bytes) crypto" where
  "crypto_bad_decrypt = toy_crypto\<lparr>ibe_Decrypt := (\<lambda>sg ct. Inl (LibError ''invalid proof''))\<rparr>"

section \<open>Properties\<close>

subsection \<open>Auxiliary facts\<close>

lemma length_be32: "length (be32 x) = 4"
  by (simp add: be32_def)

lemma length_sha256_digest: "length (sha256_digest st) = 32"
  by (cases st rule: sha256_digest.cases) (simp add: length_be32)

lemma length_SHA256: "length (SHA256 m) = 32"
  by (simp add: SHA256_def length_sha256_digest)

lemma calculateEncryptionID_eq: "calculateEncryptionID r = Inr (SHA256 (RoundToBytes r))"
  by (simp add: calculateEncryptionID_def sha256_Write_def sha256_New_def sha256_Sum_def)

lemma byte_of_drop_bit:
  "(ucast (drop_bit n (r :: u64)) :: byte) = of_nat ((unat r div 2 ^ n) mod 256)"
proof -
  have "unat (drop_bit n r) = unat r div 2 ^ n"
    unfolding unat_drop_bit_eq by (simp add: drop_bit_eq_div)
  then have "unat (ucast (drop_bit n r) :: byte) = (unat r div 2 ^ n) mod 256"
    by (simp only: unsigned_ucast_eq take_bit_eq_mod) simp
  moreover have "unat (of_nat ((unat r div 2 ^ n) mod 256) :: byte) = (unat r div 2 ^ n) mod 256"
    by (simp add: unat_of_nat)
  ultimately show ?thesis
    by (simp only: word_unat_eq_iff)
qed

lemma RoundToBytes_big_endian: "RoundToBytes r = big_endian_u64 r"
  unfolding RoundToBytes_def big_endian_u64_def
  by (rule map_cong) (auto simp: byte_of_drop_bit power_mult)

lemma length_RoundToBytes: "length (RoundToBytes r) = 8"
  by (simp add: RoundToBytes_def)

lemma digit_char: "d < 10 \<Longrightarrow> (of_char (''0123456789'' ! d) :: nat) = 48 + d"
proof -
  assume "d < 10"
  then have "d \<in> {0, 1, 2, 3, 4, 5, 6, 7, 8, 9}" by auto
  then show ?thesis by auto
qed


lemma decimal_value_snoc: "decimal_value (cs @ [c]) = 10 * decimal_value cs + (of_char c - 48)"
  by (induction cs) (simp_all add: algebra_simps)

lemma decimal_value_decimal: "decimal_value (decimal n) = n"
proof (induction n rule: decimal.induct)
  case (1 n)
  show ?case
  proof (cases "n < 10")
    case True
    then show ?thesis by (simp add: decimal.simps [of n] digit_char)
  next
    case False
    with 1 show ?thesis
      by (simp add: decimal.simps [of n] decimal_value_snoc digit_char)
  qed
qed

lemma digits_decimal: "\<forall>c \<in> set (decimal n). c \<in> set ''0123456789''"
proof (induction n rule: decimal.induct)
  case (1 n)
  show ?case
  proof (cases "n < 10")
    case True
    then have "''0123456789'' ! n \<in> set ''0123456789''"
      by (intro nth_mem) simp
    with True show ?thesis by (simp add: decimal.simps [of n])
  next
    case False
    have "''0123456789'' ! (n mod 10) \<in> set ''0123456789''"
      by (intro nth_mem) simp
    with False 1 show ?thesis
      by (simp add: decimal.simps [of n])
  qed
qed

lemma nth_go_copy:
  "i < length dst \<Longrightarrow> go_copy dst src ! i = (if i < length src then src ! i else dst ! i)"
  by (auto simp: go_copy_def Let_def nth_append min_def)

lemma length_go_copy: "length (go_copy dst src) = length dst"
  by (simp add: go_copy_def Let_def)

lemma nth_copy_at:
  "off \<le> length dst \<Longrightarrow> i < length dst \<Longrightarrow>
   copy_at dst off src ! i = (if off \<le> i \<and> i - off < length src then src ! (i - off) else dst ! i)"
  by (auto simp: copy_at_def nth_append nth_go_copy)

lemma go_copy_same: "length src = length dst \<Longrightarrow> go_copy dst src = src"
  by (simp add: go_copy_def Let_def)

lemma length_copy_at: "off \<le> length dst \<Longrightarrow> length (copy_at dst off src) = length dst"
  by (simp add: copy_at_def length_go_copy)

lemma length_cipherDEK_bytes: "length (cipherDEK_bytes kp v w) = 80"
  by (simp add: cipherDEK_bytes_def Let_def length_copy_at length_go_copy
      kyberPointLen_def cipherVLen_def cipherWLen_def)

lemma cipherDEK_bytes_exact:
  "length kp = 48 \<Longrightarrow> length v = 16 \<Longrightarrow> length w = 16 \<Longrightarrow> cipherDEK_bytes kp v w = kp @ v @ w"
  by (simp add: cipherDEK_bytes_def Let_def copy_at_def go_copy_def
      kyberPointLen_def cipherVLen_def cipherWLen_def)

lemma parseCipherDEK_ok:
  "length b = 80 \<Longrightarrow> parseCipherDEK b =
     Inr \<lparr>kyberPoint = take 48 b, cipherV = take 16 (drop 48 b), cipherW = drop 64 b\<rparr>"
  by (simp add: parseCipherDEK_def Let_def go_copy_same
      kyberPointLen_def cipherVLen_def cipherWLen_def)

lemma decimal_80: "decimal 80 = ''80''"
  by (simp add: decimal.simps)

lemma parseCipherDEK_bad:
  "length b \<noteq> 80 \<Longrightarrow> parseCipherDEK b =
     Inl (Errorf (''incorrect length: exp: 80 got: '' @ decimal (length b)))"
  by (simp add: parseCipherDEK_def Let_def decimal_80
      kyberPointLen_def cipherVLen_def cipherWLen_def)

lemma decryptDEK_not_ready:
  "\<not> snd (IsReadyToDecrypt net r) \<Longrightarrow> decryptDEK cr cd net r = ([QueryNetwork], Inl ErrTooEarly)"
  by (simp add: decryptDEK_def split_beta)

lemma decryptDEK_verify_fails:
  "snd (IsReadyToDecrypt net r) \<Longrightarrow>
   chain_VerifyBeacon cr \<lparr>ID = UnchainedSchemeID, DecouplePrevSig = True\<rparr>
     \<lparr>Round = r, Signature = fst (IsReadyToDecrypt net r)\<rparr> (PublicKey net) = Some e \<Longrightarrow>
   decryptDEK cr cd net r = ([QueryNetwork, VerifyBeacon], Inl (Wrapf ''verify beacon: %w'' e))"
  by (simp add: decryptDEK_def Let_def split_beta)

lemma decryptDEK_prefix: "prefix (fst (decryptDEK cr cd net r)) decrypt_steps"
  by (simp add: decryptDEK_def decrypt_steps_def Let_def split_beta
      split: option.splits sum.splits)

lemma decryptDEK_Inr: "snd (decryptDEK cr cd net r) = Inr k \<Longrightarrow> fst (decryptDEK cr cd net r) = decrypt_steps"
  by (simp add: decryptDEK_def decrypt_steps_def Let_def split_beta
      split: option.splits sum.splits if_splits)

lemma decryptDEK_IBEDecrypt:
  "IBEDecrypt \<in> set (fst (decryptDEK cr cd net r)) \<Longrightarrow>
   snd (IsReadyToDecrypt net r) \<and>
   chain_VerifyBeacon cr \<lparr>ID = UnchainedSchemeID, DecouplePrevSig = True\<rparr>
     \<lparr>Round = r, Signature = fst (IsReadyToDecrypt net r)\<rparr> (PublicKey net) = None"
  by (simp add: decryptDEK_def Let_def split_beta
      split: option.splits sum.splits if_splits)

lemma Unwrap_cases:
  "Unwrap cr net ss =
     (if length ss \<noteq> 1 then ([], Inl (ErrorsNew ''check stanzas length: should be one''))
      else if Type (hd ss) \<noteq> ''tlock'' then
        ([CheckType], Inl (Wrapf ''check stanza type: wrong type: %w'' ErrIncorrectIdentity))
      else if length (Args (hd ss)) \<noteq> 2 then
        ([CheckType, CheckArgs],
         Inl (Wrapf ''check stanza args: should be two: %w'' ErrIncorrectIdentity))
      else case ParseUint (Args (hd ss) ! 0) of
        Inl e \<Rightarrow> ([CheckType, CheckArgs, ParseRound], Inl (Wrapf ''parse block round: %w'' e))
      | Inr r \<Rightarrow>
          if ChainHash net \<noteq> Args (hd ss) ! 1 then
            ([CheckType, CheckArgs, ParseRound, CheckChain], Inl (ErrorsNew ''wrong chainhash''))
          else if length (Body (hd ss)) \<noteq> 80 then
            ([CheckType, CheckArgs, ParseRound, CheckChain, ParseBody],
             Inl (Wrapf ''parse cipher dek: %w''
                   (Errorf (''incorrect length: exp: 80 got: '' @ decimal (length (Body (hd ss)))))))
          else
            (let cd = \<lparr>kyberPoint = take 48 (Body (hd ss)),
                       cipherV = take 16 (drop 48 (Body (hd ss))),
                       cipherW = drop 64 (Body (hd ss))\<rparr>
             in ([CheckType, CheckArgs, ParseRound, CheckChain, ParseBody]
                   @ fst (decryptDEK cr cd net r),
                 case snd (decryptDEK cr cd net r) of
                   Inl e \<Rightarrow> Inl (Wrapf ''decrypt dek: %w'' e)
                 | Inr k \<Rightarrow> Inr k)))"
  by (cases ss)
     (auto simp: Unwrap_def Let_def parseCipherDEK_ok parseCipherDEK_bad
       split: sum.splits prod.splits)

lemma Wrap_ok:
  "ibe_Encrypt cr (PublicKey net) (SHA256 (RoundToBytes r)) fk = Inr ct \<Longrightarrow>
   g1_MarshalBinary cr (U ct) = Inr kp \<Longrightarrow>
   Wrap cr net r fk =
     Inr [\<lparr>Type = ''tlock'', Args = [FormatUint r, ChainHash net],
           Body = cipherDEK_bytes kp (V ct) (W ct)\<rparr>]"
  by (simp add: Wrap_def calculateEncryptionID_eq)

lemma nth_cipherDEK_bytes:
  "i < 80 \<Longrightarrow>
   cipherDEK_bytes kp v w ! i =
     (if 64 \<le> i \<and> i - 64 < length w then w ! (i - 64)
      else if 48 \<le> i \<and> i - 48 < length v then v ! (i - 48)
      else if i < length kp then kp ! i
      else 0)"
  by (simp add: cipherDEK_bytes_def Let_def nth_copy_at nth_go_copy length_copy_at length_go_copy
      kyberPointLen_def cipherVLen_def cipherWLen_def)

lemma stanza_round1000_checks:
  "Type stanza_round1000 = ''tlock''" "length (Args stanza_round1000) = 2"
  "ParseUint (Args stanza_round1000 ! 0) = Inr 1000"
  "ChainHash toy_network = Args stanza_round1000 ! 1"
  "length (Body stanza_round1000) = 80"
  by code_simp+

lemma stanza_round5_checks:
  "Type stanza_round5 = ''tlock''" "length (Args stanza_round5) = 2"
  "ParseUint (Args stanza_round5 ! 0) = Inr 5"
  "ChainHash toy_network = Args stanza_round5 ! 1"
  "length (Body stanza_round5) = 80"
  by code_simp+

lemma toy_network_rounds:
  "IsReadyToDecrypt toy_network 5 = ([7], True)"
  "IsReadyToDecrypt toy_network 60 = ([8], True)"
  "IsReadyToDecrypt toy_network 1000 = ([], False)"
  by code_simp+

lemma toy_encrypt:
  "ibe_Encrypt toy_crypto (PublicKey toy_network) (SHA256 (RoundToBytes 5)) fk =
     Inr \<lparr>U = replicate 48 3, V = replicate 16 2, W = fk\<rparr>"
  "g1_MarshalBinary toy_crypto (U \<lparr>U = replicate 48 3, V = replicate 16 2, W = fk\<rparr>) =
     Inr (replicate 48 3)"
  by (simp_all add: toy_crypto_def)

text \<open>
  Two values of the model of SHA-256: the digest of the message \<^verbatim>\<open>abc\<close> given in
  FIPS 180-4, and the identity of round 1.
\<close>

lemma SHA256_abc:
  "SHA256 [0x61, 0x62, 0x63] =
     [0xba, 0x78, 0x16, 0xbf, 0x8f, 0x01, 0xcf, 0xea, 0x41, 0x41, 0x40, 0xde, 0x5d, 0xae, 0x22, 0x23,
      0xb0, 0x03, 0x61, 0xa3, 0x96, 0x17, 0x7a, 0x9c, 0xb4, 0x10, 0xff, 0x61, 0xf2, 0x00, 0x15, 0xad]"
  by code_simp

lemma calculateEncryptionID_1:
  "calculateEncryptionID 1 =
     Inr [0xcd, 0x26, 0x62, 0x15, 0x4e, 0x6d, 0x76, 0xb2, 0xb2, 0xb9, 0x2e, 0x70, 0xc0, 0xca, 0xc3, 0xcc,
          0xf5, 0x34, 0xf9, 0xb7, 0x4e, 0xb5, 0xb8, 0x98, 0x19, 0xec, 0x50, 0x90, 0x83, 0xd0, 0x0a, 0x50]"
  by code_simp

text \<open>
  The model of \<^verbatim>\<open>strconv.ParseUint\<close> at the edges of its domain: the largest round,
  the first value out of range, leading zeros, the empty string, a sign, a letter.
\<close>

lemma ParseUint_examples:
  "ParseUint ''18446744073709551615'' = Inr 18446744073709551615"
  "ParseUint ''18446744073709551616'' =
     Inl (NumError ''ParseUint'' ''18446744073709551616'' ErrRange)"
  "ParseUint ''007'' = Inr 7"
  "ParseUint [] = Inl (NumError ''ParseUint'' [] ErrSyntax)"
  "ParseUint ''+12'' = Inl (NumError ''ParseUint'' ''+12'' ErrSyntax)"
  "ParseUint ''12a'' = Inl (NumError ''ParseUint'' ''12a'' ErrSyntax)"
  by code_simp+

lemma FormatUint_examples:
  "FormatUint 0 = ''0''"
  "FormatUint 1000 = ''1000''"
  "FormatUint 18446744073709551615 = ''18446744073709551615''"
  by (simp_all add: FormatUint_def decimal.simps)

subsection \<open>The identity of a round\<close>

text \<open>
  Claim C5. For every 64-bit round number \<open>r\<close>, \<^verbatim>\<open>calculateEncryptionID\<close> returns the
  SHA-256 digest of the 8-byte big-endian encoding of \<open>r\<close>, a value of 32 bytes. The
  result is a function of \<open>r\<close> alone, so two calls with the same round return equal
  identities.
\<close>

theorem calculateEncryptionID_identity:
  "calculateEncryptionID r = Inr (SHA256 (big_endian_u64 r)) \<and>
   length (big_endian_u64 r) = 8 \<and> length (SHA256 (big_endian_u64 r)) = 32"
  by (simp add: calculateEncryptionID_eq RoundToBytes_big_endian length_SHA256 big_endian_u64_def)

text \<open>
  Claim C9. \<^verbatim>\<open>calculateEncryptionID\<close> is total and never returns an error: the
  \<^verbatim>\<open>Write\<close> of the hash returns a nil error, so the error branch is not taken, and
  the result is a non-empty digest of 32 bytes with a nil error.
\<close>

theorem calculateEncryptionID_total:
  "snd (snd (sha256_Write h p)) = None \<and>
   (\<exists>d. calculateEncryptionID r = Inr d \<and> length d = 32 \<and> d \<noteq> []) \<and>
   (\<forall>e. calculateEncryptionID r \<noteq> Inl e)"
proof -
  have "SHA256 (RoundToBytes r) \<noteq> []"
    using length_SHA256 [of "RoundToBytes r"] by auto
  then show ?thesis
    by (simp add: calculateEncryptionID_eq length_SHA256 sha256_Write_def)
qed

subsection \<open>The stanza body\<close>

text \<open>
  Claim C6. \<^verbatim>\<open>parseCipherDEK\<close> succeeds exactly on bodies of 80 bytes and returns an
  error for every other length. On 80 bytes it returns the bytes 0..48, 48..64 and 64..80
  as they are; no point is decoded. For \<open>u\<close> of 48, \<open>v\<close> of 16 and \<open>w\<close> of 16 bytes
  the body that \<^verbatim>\<open>Wrap\<close> builds is the concatenation, and parsing it gives back
  \<open>(u, v, w)\<close>; the same holds for the body of the stanza that \<^verbatim>\<open>Wrap\<close> returns.
\<close>

theorem parseCipherDEK_roundtrip:
  "parseCipherDEK b =
     (if length b = 80
      then Inr \<lparr>kyberPoint = take 48 b, cipherV = take 16 (drop 48 b), cipherW = drop 64 b\<rparr>
      else Inl (Errorf (''incorrect length: exp: 80 got: '' @ decimal (length b))))
   \<and> ((\<exists>cd. parseCipherDEK b = Inr cd) \<longleftrightarrow> length b = 80)
   \<and> (length u = 48 \<and> length v = 16 \<and> length w = 16 \<longrightarrow>
        cipherDEK_bytes u v w = u @ v @ w \<and>
        parseCipherDEK (cipherDEK_bytes u v w) = Inr \<lparr>kyberPoint = u, cipherV = v, cipherW = w\<rparr>)
   \<and> (ibe_Encrypt cr (PublicKey net) (SHA256 (RoundToBytes r)) fk = Inr ct \<and>
        g1_MarshalBinary cr (U ct) = Inr kp \<and>
        length kp = 48 \<and> length (V ct) = 16 \<and> length (W ct) = 16 \<longrightarrow>
        (\<exists>st. Wrap cr net r fk = Inr [st] \<and>
              parseCipherDEK (Body st) = Inr \<lparr>kyberPoint = kp, cipherV = V ct, cipherW = W ct\<rparr>))"
proof -
  have parse: "parseCipherDEK b =
     (if length b = 80
      then Inr \<lparr>kyberPoint = take 48 b, cipherV = take 16 (drop 48 b), cipherW = drop 64 b\<rparr>
      else Inl (Errorf (''incorrect length: exp: 80 got: '' @ decimal (length b))))"
    by (simp add: parseCipherDEK_ok parseCipherDEK_bad)
  have exact: "(\<exists>cd. parseCipherDEK b = Inr cd) \<longleftrightarrow> length b = 80"
    by (simp add: parse)
  have rt: "parseCipherDEK (x @ y @ z) = Inr \<lparr>kyberPoint = x, cipherV = y, cipherW = z\<rparr>"
    if "length x = 48" "length y = 16" "length z = 16" for x y z
    using that by (simp add: parseCipherDEK_ok)
  have ser: "length u = 48 \<and> length v = 16 \<and> length w = 16 \<longrightarrow>
        cipherDEK_bytes u v w = u @ v @ w \<and>
        parseCipherDEK (cipherDEK_bytes u v w) = Inr \<lparr>kyberPoint = u, cipherV = v, cipherW = w\<rparr>"
    by (simp add: cipherDEK_bytes_exact rt)
  have wrap: "ibe_Encrypt cr (PublicKey net) (SHA256 (RoundToBytes r)) fk = Inr ct \<and>
        g1_MarshalBinary cr (U ct) = Inr kp \<and>
        length kp = 48 \<and> length (V ct) = 16 \<and> length (W ct) = 16 \<longrightarrow>
        (\<exists>st. Wrap cr net r fk = Inr [st] \<and>
              parseCipherDEK (Body st) = Inr \<lparr>kyberPoint = kp, cipherV = V ct, cipherW = W ct\<rparr>)"
    by (simp add: Wrap_def calculateEncryptionID_eq cipherDEK_bytes_exact rt)
  from parse exact ser wrap show ?thesis by blast
qed

theorem parseCipherDEK_roundtrip_witness:
  "parseCipherDEK (Body stanza_round5) =
     Inr \<lparr>kyberPoint = replicate 48 3, cipherV = replicate 16 2, cipherW = replicate 16 9\<rparr>
   \<and> cipherDEK_bytes (replicate 48 3) (replicate 16 2) (replicate 16 9) = Body stanza_round5
   \<and> (\<exists>st. Wrap toy_crypto toy_network 5 (replicate 16 9) = Inr [st] \<and>
         parseCipherDEK (Body st) =
           Inr \<lparr>kyberPoint = replicate 48 3, cipherV = replicate 16 2,
                cipherW = replicate 16 9\<rparr>)"
proof -
  note t = parseCipherDEK_roundtrip [of "Body stanza_round5"
      "replicate 48 3" "replicate 16 2" "replicate 16 9" toy_crypto toy_network 5
      "replicate 16 9" "\<lparr>U = replicate 48 3, V = replicate 16 2, W = replicate 16 9\<rparr>"
      "replicate 48 3"]
  have b: "Body stanza_round5 = replicate 48 3 @ replicate 16 2 @ replicate 16 9"
    by (simp add: stanza_round5_def)
  from t have "parseCipherDEK (Body stanza_round5) =
     Inr \<lparr>kyberPoint = take 48 (Body stanza_round5),
          cipherV = take 16 (drop 48 (Body stanza_round5)),
          cipherW = drop 64 (Body stanza_round5)\<rparr>"
    by (simp add: stanza_round5_checks)
  then have p: "parseCipherDEK (Body stanza_round5) =
     Inr \<lparr>kyberPoint = replicate 48 3, cipherV = replicate 16 2, cipherW = replicate 16 9\<rparr>"
    by (simp add: b)
  from t have s: "cipherDEK_bytes (replicate 48 3) (replicate 16 2) (replicate 16 9) =
      Body stanza_round5"
    by (simp add: b)
  from t toy_encrypt [of "replicate 16 9"]
  have w: "\<exists>st. Wrap toy_crypto toy_network 5 (replicate 16 9) = Inr [st] \<and>
         parseCipherDEK (Body st) =
           Inr \<lparr>kyberPoint = replicate 48 3, cipherV = replicate 16 2,
                cipherW = replicate 16 9\<rparr>"
    by simp
  from p s w show ?thesis by blast
qed

subsection \<open>Wrap\<close>

text \<open>
  Claim C2. When the IBE encryption and the marshalling of the point succeed, \<^verbatim>\<open>Wrap\<close>
  returns a list of exactly one stanza: its type is \<^verbatim>\<open>tlock\<close>, it has exactly two
  arguments, the first is the round formatted in decimal (a string of decimal digits
  whose value is the round), the second is the chain hash of the network, and the body
  has exactly 80 bytes.
\<close>

theorem Wrap_stanza:
  assumes "ibe_Encrypt cr (PublicKey net) (SHA256 (RoundToBytes r)) fk = Inr ct"
      and "g1_MarshalBinary cr (U ct) = Inr kp"
  shows "\<exists>st. Wrap cr net r fk = Inr [st] \<and> Type st = ''tlock'' \<and> length (Args st) = 2
           \<and> Args st ! 0 = FormatUint r
           \<and> decimal_value (Args st ! 0) = unat r
           \<and> (\<forall>c \<in> set (Args st ! 0). c \<in> set ''0123456789'')
           \<and> Args st ! 1 = ChainHash net
           \<and> length (Body st) = 80"
  using digits_decimal [of "unat r"]
  by (simp add: Wrap_ok [OF assms] FormatUint_def decimal_value_decimal length_cipherDEK_bytes)

theorem Wrap_stanza_witness:
  "\<exists>st. Wrap toy_crypto toy_network 5 (replicate 16 9) = Inr [st] \<and> Type st = ''tlock''
      \<and> length (Args st) = 2 \<and> Args st ! 0 = FormatUint 5
      \<and> decimal_value (Args st ! 0) = unat (5 :: u64)
      \<and> (\<forall>c \<in> set (Args st ! 0). c \<in> set ''0123456789'')
      \<and> Args st ! 1 = ChainHash toy_network
      \<and> length (Body st) = 80"
  by (rule Wrap_stanza [OF toy_encrypt [of "replicate 16 9"]])

text \<open>
  Claim C7, as the code has it. \<^verbatim>\<open>Wrap\<close> checks no field length. When the IBE
  encryption and the marshalling succeed it returns a body of 80 bytes and no error:
  the marshalled point is copied to offset 0, then \<open>V\<close> to offset 48, then \<open>W\<close> to
  offset 64, each cut to the room that is left, a later copy overwriting an earlier one,
  and bytes that no copy reaches are zero. When the lengths are 48, 16 and 16 the body
  is the concatenation of the three fields.
\<close>

theorem Wrap_body_unchecked:
  assumes "ibe_Encrypt cr (PublicKey net) (SHA256 (RoundToBytes r)) fk = Inr ct"
      and "g1_MarshalBinary cr (U ct) = Inr kp"
  shows "\<exists>st. Wrap cr net r fk = Inr [st] \<and> length (Body st) = 80
           \<and> (\<forall>i<80. Body st ! i =
                 (if 64 \<le> i \<and> i - 64 < length (W ct) then W ct ! (i - 64)
                  else if 48 \<le> i \<and> i - 48 < length (V ct) then V ct ! (i - 48)
                  else if i < length kp then kp ! i
                  else 0))
           \<and> (length kp = 48 \<and> length (V ct) = 16 \<and> length (W ct) = 16 \<longrightarrow>
                 Body st = kp @ V ct @ W ct)"
  by (simp add: Wrap_ok [OF assms] length_cipherDEK_bytes nth_cipherDEK_bytes cipherDEK_bytes_exact)

theorem Wrap_body_unchecked_witness:
  "(\<exists>st. Wrap toy_crypto toy_network 5 (replicate 16 9) = Inr [st]
      \<and> Body st = replicate 48 3 @ replicate 16 2 @ replicate 16 9)
   \<and> (\<exists>st. Wrap toy_crypto toy_network 5 [1, 2, 3] = Inr [st]
      \<and> length (Body st) = 80 \<and> Body st ! 66 = 3 \<and> Body st ! 67 = 0)"
proof -
  from Wrap_body_unchecked [OF toy_encrypt [of "replicate 16 9"]]
  have a: "\<exists>st. Wrap toy_crypto toy_network 5 (replicate 16 9) = Inr [st]
      \<and> Body st = replicate 48 3 @ replicate 16 2 @ replicate 16 9"
    by auto
  from Wrap_body_unchecked [OF toy_encrypt [of "[1, 2, 3]"]]
  obtain st where w: "Wrap toy_crypto toy_network 5 [1, 2, 3] = Inr [st]"
    and l: "length (Body st) = 80"
    and n: "\<forall>i<80. Body st ! i =
                 (if 64 \<le> i \<and> i - 64 < length [1, 2, 3 :: byte] then [1, 2, 3] ! (i - 64)
                  else if 48 \<le> i \<and> i - 48 < length (replicate 16 (2 :: byte))
                    then replicate 16 2 ! (i - 48)
                  else if i < length (replicate 48 (3 :: byte)) then replicate 48 3 ! i
                  else 0)"
    by auto
  from n have "Body st ! 66 = 3" "Body st ! 67 = 0"
    by simp_all
  with w l have "\<exists>st. Wrap toy_crypto toy_network 5 [1, 2, 3] = Inr [st]
      \<and> length (Body st) = 80 \<and> Body st ! 66 = 3 \<and> Body st ! 67 = 0"
    by blast
  with a show ?thesis ..
qed

text \<open>
  Claim C7 as stated fails: with a file key of 3 bytes the library returns \<open>W\<close> of
  3 bytes, and \<^verbatim>\<open>Wrap\<close> returns a stanza whose body is padded with zeros, with no
  error.
\<close>

theorem Wrap_body_counterexample:
  "ibe_Encrypt toy_crypto (PublicKey toy_network) (SHA256 (RoundToBytes 5)) [1, 2, 3] =
     Inr \<lparr>U = replicate 48 3, V = replicate 16 2, W = [1, 2, 3]\<rparr>
   \<and> g1_MarshalBinary toy_crypto (replicate 48 3) = Inr (replicate 48 3)
   \<and> length [1, 2, 3 :: byte] \<noteq> 16
   \<and> Wrap toy_crypto toy_network 5 [1, 2, 3] =
       Inr [\<lparr>Type = ''tlock'', Args = [''5'', testnetChainHash],
             Body = replicate 48 3 @ replicate 16 2 @ [1, 2, 3] @ replicate 13 0\<rparr>]"
proof -
  have e: "ibe_Encrypt toy_crypto (PublicKey toy_network) (SHA256 (RoundToBytes 5)) [1, 2, 3] =
     Inr \<lparr>U = replicate 48 3, V = replicate 16 2, W = [1, 2, 3]\<rparr>"
    by (simp add: toy_crypto_def)
  have m: "g1_MarshalBinary toy_crypto (replicate 48 3) = Inr (replicate 48 3)"
    by (simp add: toy_crypto_def)
  have f: "FormatUint 5 = ''5''"
    by (simp add: FormatUint_def decimal.simps)
  have c: "ChainHash toy_network = testnetChainHash"
    by (simp add: toy_network_def)
  have b: "cipherDEK_bytes (replicate 48 3) (replicate 16 2) [1, 2, 3] =
      replicate 48 3 @ replicate 16 2 @ [1, 2, 3] @ replicate 13 (0 :: byte)"
    by code_simp
  from e m show ?thesis
    by (simp add: Wrap_def calculateEncryptionID_eq f c b)
qed

subsection \<open>Unwrap\<close>

text \<open>
  Claim C10. For every list of stanzas whose length is not 1 (the empty list and lists
  of several recipients alike) \<^verbatim>\<open>Unwrap\<close> fails with a plain error that does not
  match \<^verbatim>\<open>age.ErrIncorrectIdentity\<close>; no step has run, so no field of a stanza was
  read.
\<close>

theorem Unwrap_rejects_stanza_count:
  "length stanzas \<noteq> 1 \<Longrightarrow>
     Unwrap cr net stanzas = ([], Inl (ErrorsNew ''check stanzas length: should be one'')) \<and>
     \<not> errors_Is (ErrorsNew ''check stanzas length: should be one'') ErrIncorrectIdentity"
  by (simp add: Unwrap_def)

theorem Unwrap_rejects_stanza_count_witness:
  "Unwrap toy_crypto toy_network [] =
     ([], Inl (ErrorsNew ''check stanzas length: should be one''))
   \<and> Unwrap toy_crypto toy_network [stanza_one_arg, stanza_round5] =
     ([], Inl (ErrorsNew ''check stanzas length: should be one''))
   \<and> \<not> errors_Is (ErrorsNew ''check stanzas length: should be one'') ErrIncorrectIdentity"
proof -
  have h0: "length ([] :: stanza list) \<noteq> 1"
    by simp
  have h2: "length [stanza_one_arg, stanza_round5] \<noteq> 1"
    by simp
  from Unwrap_rejects_stanza_count [OF h0, of toy_crypto toy_network]
    Unwrap_rejects_stanza_count [OF h2, of toy_crypto toy_network]
  show ?thesis
    by simp
qed

text \<open>
  Claim C8, as the code has it. For a single stanza of type \<^verbatim>\<open>tlock\<close> whose number of
  arguments is not 2, \<^verbatim>\<open>Unwrap\<close> fails after the test of the arguments with the error
  "check stanza args: should be two", which wraps \<^verbatim>\<open>age.ErrIncorrectIdentity\<close> and
  so matches it under \<^verbatim>\<open>errors.Is\<close>. The error for a stanza of another type,
  "check stanza type: wrong type", wraps the same sentinel and matches it too; the two
  errors differ in their message.
\<close>

theorem Unwrap_args_count:
  assumes "Type s = ''tlock''" and "length (Args s) \<noteq> 2"
  shows "Unwrap cr net [s] =
           ([CheckType, CheckArgs],
            Inl (Wrapf ''check stanza args: should be two: %w'' ErrIncorrectIdentity))
         \<and> errors_Is (Wrapf ''check stanza args: should be two: %w'' ErrIncorrectIdentity)
              ErrIncorrectIdentity
         \<and> (Type s' \<noteq> ''tlock'' \<longrightarrow>
              Unwrap cr net [s'] =
                ([CheckType],
                 Inl (Wrapf ''check stanza type: wrong type: %w'' ErrIncorrectIdentity)))
         \<and> errors_Is (Wrapf ''check stanza type: wrong type: %w'' ErrIncorrectIdentity)
              ErrIncorrectIdentity
         \<and> Wrapf ''check stanza args: should be two: %w'' ErrIncorrectIdentity
              \<noteq> Wrapf ''check stanza type: wrong type: %w'' ErrIncorrectIdentity"
  using assms by (simp add: Unwrap_def)

theorem Unwrap_args_count_witness:
  "Type stanza_one_arg = ''tlock'' \<and> length (Args stanza_one_arg) \<noteq> 2
   \<and> Unwrap toy_crypto toy_network [stanza_one_arg] =
       ([CheckType, CheckArgs],
        Inl (Wrapf ''check stanza args: should be two: %w'' ErrIncorrectIdentity))
   \<and> errors_Is (Wrapf ''check stanza args: should be two: %w'' ErrIncorrectIdentity)
        ErrIncorrectIdentity
   \<and> Type stanza_x25519 \<noteq> ''tlock''
   \<and> Unwrap toy_crypto toy_network [stanza_x25519] =
       ([CheckType], Inl (Wrapf ''check stanza type: wrong type: %w'' ErrIncorrectIdentity))
   \<and> errors_Is (Wrapf ''check stanza type: wrong type: %w'' ErrIncorrectIdentity)
        ErrIncorrectIdentity"
proof -
  have h1: "Type stanza_one_arg = ''tlock''"
    by (simp add: stanza_one_arg_def)
  have h2: "length (Args stanza_one_arg) \<noteq> 2"
    by (simp add: stanza_one_arg_def)
  have h3: "Type stanza_x25519 \<noteq> ''tlock''"
    by (simp add: stanza_x25519_def)
  from h1 h2 h3 Unwrap_args_count [OF h1 h2, of toy_crypto toy_network stanza_x25519]
  show ?thesis
    by blast
qed

text \<open>
  Claim C8 as stated fails: the error for a stanza of type \<^verbatim>\<open>tlock\<close> with a single
  argument matches \<^verbatim>\<open>age.ErrIncorrectIdentity\<close>.
\<close>

theorem Unwrap_args_count_counterexample:
  "Type stanza_one_arg = ''tlock'' \<and> length (Args stanza_one_arg) \<noteq> 2
   \<and> snd (Unwrap toy_crypto toy_network [stanza_one_arg]) =
       Inl (Wrapf ''check stanza args: should be two: %w'' ErrIncorrectIdentity)
   \<and> errors_Is (Wrapf ''check stanza args: should be two: %w'' ErrIncorrectIdentity)
        ErrIncorrectIdentity"
  by code_simp

text \<open>
  Claim C4. For a single stanza of type \<^verbatim>\<open>tlock\<close> with two arguments and a round
  that parses, if the second argument differs from the chain hash of the network then
  \<^verbatim>\<open>Unwrap\<close> fails with the error "wrong chainhash". The run ends at the comparison:
  the body is not parsed and the network is not asked, and the result is the same
  whatever the body, the answers of the network and the library are.
\<close>

theorem Unwrap_wrong_chainhash:
  assumes "Type s = ''tlock''" and "length (Args s) = 2"
      and "ParseUint (Args s ! 0) = Inr r" and "Args s ! 1 \<noteq> ChainHash net"
  shows "Unwrap cr net [s] =
           ([CheckType, CheckArgs, ParseRound, CheckChain], Inl (ErrorsNew ''wrong chainhash''))
         \<and> ParseBody \<notin> set (fst (Unwrap cr net [s]))
         \<and> QueryNetwork \<notin> set (fst (Unwrap cr net [s]))
         \<and> Unwrap cr' (net\<lparr>IsReadyToDecrypt := q\<rparr>) [s\<lparr>Body := b\<rparr>] = Unwrap cr net [s]"
  using assms by (auto simp: Unwrap_cases)

theorem Unwrap_wrong_chainhash_witness:
  "Args stanza_round5 ! 1 \<noteq> ChainHash other_network
   \<and> length (Body stanza_round5) = 80
   \<and> IsReadyToDecrypt other_network 5 = ([7], True)
   \<and> Unwrap toy_crypto other_network [stanza_round5] =
       ([CheckType, CheckArgs, ParseRound, CheckChain], Inl (ErrorsNew ''wrong chainhash''))
   \<and> ParseBody \<notin> set (fst (Unwrap toy_crypto other_network [stanza_round5]))
   \<and> QueryNetwork \<notin> set (fst (Unwrap toy_crypto other_network [stanza_round5]))
   \<and> Unwrap toy_crypto (other_network\<lparr>IsReadyToDecrypt := \<lambda>r. ([], False)\<rparr>)
        [stanza_round5\<lparr>Body := []\<rparr>] = Unwrap toy_crypto other_network [stanza_round5]"
proof -
  have h: "Args stanza_round5 ! 1 \<noteq> ChainHash other_network"
    by code_simp
  have r: "IsReadyToDecrypt other_network 5 = ([7], True)"
    by code_simp
  note t = Unwrap_wrong_chainhash [OF stanza_round5_checks(1-3) h,
      of toy_crypto toy_crypto "\<lambda>r. ([], False)" "[]"]
  from h stanza_round5_checks(5) r t show ?thesis
    by blast
qed

text \<open>
  Claim C1, as the code has it. For a single stanza that passes the tests of the type,
  of the number of arguments, of the round and of the chain hash, and whose body has
  80 bytes, if \<^verbatim>\<open>IsReadyToDecrypt\<close> answers false for the round then \<^verbatim>\<open>Unwrap\<close>
  fails with \<^verbatim>\<open>ErrTooEarly\<close> wrapped once, which matches the sentinel under
  \<^verbatim>\<open>errors.Is\<close>; the run ends at the question to the network, before the beacon is
  verified or anything is decrypted, whatever the library is.
\<close>

theorem Unwrap_too_early:
  assumes "Type s = ''tlock''" and "length (Args s) = 2"
      and "ParseUint (Args s ! 0) = Inr r" and "ChainHash net = Args s ! 1"
      and "length (Body s) = 80" and "\<not> snd (IsReadyToDecrypt net r)"
  shows "Unwrap cr net [s] =
           ([CheckType, CheckArgs, ParseRound, CheckChain, ParseBody, QueryNetwork],
            Inl (Wrapf ''decrypt dek: %w'' ErrTooEarly))
         \<and> errors_Is (Wrapf ''decrypt dek: %w'' ErrTooEarly) ErrTooEarly
         \<and> VerifyBeacon \<notin> set (fst (Unwrap cr net [s]))
         \<and> IBEDecrypt \<notin> set (fst (Unwrap cr net [s]))"
  using assms by (simp add: Unwrap_cases decryptDEK_not_ready)

theorem Unwrap_too_early_witness:
  "\<not> snd (IsReadyToDecrypt toy_network 1000)
   \<and> Unwrap toy_crypto toy_network [stanza_round1000] =
       ([CheckType, CheckArgs, ParseRound, CheckChain, ParseBody, QueryNetwork],
        Inl (Wrapf ''decrypt dek: %w'' ErrTooEarly))
   \<and> errors_Is (Wrapf ''decrypt dek: %w'' ErrTooEarly) ErrTooEarly
   \<and> VerifyBeacon \<notin> set (fst (Unwrap toy_crypto toy_network [stanza_round1000]))
   \<and> IBEDecrypt \<notin> set (fst (Unwrap toy_crypto toy_network [stanza_round1000]))"
proof -
  have h: "\<not> snd (IsReadyToDecrypt toy_network 1000)"
    by (simp add: toy_network_rounds)
  from h Unwrap_too_early [OF stanza_round1000_checks h, of toy_crypto] show ?thesis
    by (rule conjI)
qed

text \<open>
  Claim C1 as stated fails: a stanza that passes the four tests named in the claim but
  has a body of 79 bytes is rejected by \<^verbatim>\<open>parseCipherDEK\<close>, for a round the network
  has not published, with an error that does not match \<^verbatim>\<open>ErrTooEarly\<close>.
\<close>

theorem Unwrap_too_early_counterexample:
  "Type stanza_truncated = ''tlock'' \<and> length (Args stanza_truncated) = 2
   \<and> ParseUint (Args stanza_truncated ! 0) = Inr 1000
   \<and> ChainHash toy_network = Args stanza_truncated ! 1
   \<and> \<not> snd (IsReadyToDecrypt toy_network 1000)
   \<and> snd (Unwrap toy_crypto toy_network [stanza_truncated]) =
       Inl (Wrapf ''parse cipher dek: %w'' (Errorf ''incorrect length: exp: 80 got: 79''))
   \<and> \<not> errors_Is (Wrapf ''parse cipher dek: %w'' (Errorf ''incorrect length: exp: 80 got: 79''))
         ErrTooEarly"
  by code_simp

text \<open>
  Claim C3. The steps of \<^verbatim>\<open>Unwrap\<close> run in the order CheckType, CheckArgs,
  ParseRound, CheckChain, ParseBody, QueryNetwork, VerifyBeacon, (the two point
  decodings,) IBEDecrypt, and those of \<^verbatim>\<open>decryptDEK\<close> in the order of its part; a
  run that does not reach the end of the list returns an error. \<^verbatim>\<open>ibe.Decrypt\<close> is
  called only in runs where the network had the round and \<^verbatim>\<open>VerifyBeacon\<close> returned
  nil for the signature of the network under the public key of the network. When
  \<^verbatim>\<open>VerifyBeacon\<close> returns an error, \<^verbatim>\<open>decryptDEK\<close> ends there with that error
  wrapped, and \<^verbatim>\<open>Unwrap\<close> of a stanza for that round returns an error without
  calling \<^verbatim>\<open>ibe.Decrypt\<close>.

  Every failure is terminal, step by step: a list of stanzas whose length is not 1, a
  type other than \<^verbatim>\<open>tlock\<close>, a number of arguments other than 2, a round that does
  not parse, another chain hash and a body that does not parse each end \<^verbatim>\<open>Unwrap\<close>
  at that step with the error of that step; when all of them pass, \<^verbatim>\<open>Unwrap\<close>
  continues with the steps and the result of \<^verbatim>\<open>decryptDEK\<close>, an error of which it
  wraps. A round that is not ready, a decoding of the signature or of the point that
  fails and an IBE decryption that fails each end \<^verbatim>\<open>decryptDEK\<close> at that step with
  the error of that step, and only the run in which every step succeeds returns the
  file key.
\<close>

theorem decrypt_after_verify:
  "prefix (fst (Unwrap cr net ss)) unwrap_steps
   \<and> (fst (Unwrap cr net ss) \<noteq> unwrap_steps \<longrightarrow> (\<exists>e. snd (Unwrap cr net ss) = Inl e))
   \<and> (IBEDecrypt \<in> set (fst (Unwrap cr net ss)) \<longrightarrow>
        (\<exists>s r. ss = [s] \<and> ParseUint (Args s ! 0) = Inr r \<and> snd (IsReadyToDecrypt net r) \<and>
           chain_VerifyBeacon cr \<lparr>ID = UnchainedSchemeID, DecouplePrevSig = True\<rparr>
             \<lparr>Round = r, Signature = fst (IsReadyToDecrypt net r)\<rparr> (PublicKey net) = None))
   \<and> prefix (fst (decryptDEK cr cd net r')) decrypt_steps
   \<and> (IBEDecrypt \<in> set (fst (decryptDEK cr cd net r')) \<longrightarrow>
        snd (IsReadyToDecrypt net r') \<and>
        chain_VerifyBeacon cr \<lparr>ID = UnchainedSchemeID, DecouplePrevSig = True\<rparr>
          \<lparr>Round = r', Signature = fst (IsReadyToDecrypt net r')\<rparr> (PublicKey net) = None)
   \<and> (snd (IsReadyToDecrypt net r'') \<and>
        chain_VerifyBeacon cr \<lparr>ID = UnchainedSchemeID, DecouplePrevSig = True\<rparr>
          \<lparr>Round = r'', Signature = fst (IsReadyToDecrypt net r'')\<rparr> (PublicKey net) = Some e \<longrightarrow>
        decryptDEK cr cd net r'' = ([QueryNetwork, VerifyBeacon], Inl (Wrapf ''verify beacon: %w'' e))
        \<and> (\<forall>s. ParseUint (Args s ! 0) = Inr r'' \<longrightarrow> IBEDecrypt \<notin> set (fst (Unwrap cr net [s]))
                 \<and> (\<exists>e'. snd (Unwrap cr net [s]) = Inl e')))
   \<and> (length ss \<noteq> 1 \<longrightarrow>
        Unwrap cr net ss = ([], Inl (ErrorsNew ''check stanzas length: should be one'')))
   \<and> (Type s \<noteq> ''tlock'' \<longrightarrow>
        Unwrap cr net [s] =
          ([CheckType], Inl (Wrapf ''check stanza type: wrong type: %w'' ErrIncorrectIdentity)))
   \<and> (Type s = ''tlock'' \<and> length (Args s) \<noteq> 2 \<longrightarrow>
        Unwrap cr net [s] =
          ([CheckType, CheckArgs],
           Inl (Wrapf ''check stanza args: should be two: %w'' ErrIncorrectIdentity)))
   \<and> (Type s = ''tlock'' \<and> length (Args s) = 2 \<and> ParseUint (Args s ! 0) = Inl e \<longrightarrow>
        Unwrap cr net [s] =
          ([CheckType, CheckArgs, ParseRound], Inl (Wrapf ''parse block round: %w'' e)))
   \<and> (Type s = ''tlock'' \<and> length (Args s) = 2 \<and> ParseUint (Args s ! 0) = Inr r
        \<and> ChainHash net \<noteq> Args s ! 1 \<longrightarrow>
        Unwrap cr net [s] =
          ([CheckType, CheckArgs, ParseRound, CheckChain], Inl (ErrorsNew ''wrong chainhash'')))
   \<and> (Type s = ''tlock'' \<and> length (Args s) = 2 \<and> ParseUint (Args s ! 0) = Inr r
        \<and> ChainHash net = Args s ! 1 \<and> parseCipherDEK (Body s) = Inl e \<longrightarrow>
        Unwrap cr net [s] =
          ([CheckType, CheckArgs, ParseRound, CheckChain, ParseBody],
           Inl (Wrapf ''parse cipher dek: %w'' e)))
   \<and> (Type s = ''tlock'' \<and> length (Args s) = 2 \<and> ParseUint (Args s ! 0) = Inr r
        \<and> ChainHash net = Args s ! 1 \<and> parseCipherDEK (Body s) = Inr cd \<longrightarrow>
        fst (Unwrap cr net [s]) =
          [CheckType, CheckArgs, ParseRound, CheckChain, ParseBody] @ fst (decryptDEK cr cd net r)
        \<and> snd (Unwrap cr net [s]) =
          (case snd (decryptDEK cr cd net r) of
             Inl e' \<Rightarrow> Inl (Wrapf ''decrypt dek: %w'' e')
           | Inr k' \<Rightarrow> Inr k'))
   \<and> (\<not> snd (IsReadyToDecrypt net r) \<longrightarrow>
        decryptDEK cr cd net r = ([QueryNetwork], Inl ErrTooEarly))
   \<and> (snd (IsReadyToDecrypt net r) \<and>
        chain_VerifyBeacon cr \<lparr>ID = UnchainedSchemeID, DecouplePrevSig = True\<rparr>
          \<lparr>Round = r, Signature = fst (IsReadyToDecrypt net r)\<rparr> (PublicKey net) = None
        \<and> g2_UnmarshalBinary cr (fst (IsReadyToDecrypt net r)) = Inl e \<longrightarrow>
        decryptDEK cr cd net r =
          ([QueryNetwork, VerifyBeacon, UnmarshalG2], Inl (Wrapf ''unmarshal kyber G2: %w'' e)))
   \<and> (snd (IsReadyToDecrypt net r) \<and>
        chain_VerifyBeacon cr \<lparr>ID = UnchainedSchemeID, DecouplePrevSig = True\<rparr>
          \<lparr>Round = r, Signature = fst (IsReadyToDecrypt net r)\<rparr> (PublicKey net) = None
        \<and> g2_UnmarshalBinary cr (fst (IsReadyToDecrypt net r)) = Inr sg
        \<and> g1_UnmarshalBinary cr (kyberPoint cd) = Inl e \<longrightarrow>
        decryptDEK cr cd net r =
          ([QueryNetwork, VerifyBeacon, UnmarshalG2, UnmarshalG1],
           Inl (Wrapf ''unmarshal kyber G1: %w'' e)))
   \<and> (snd (IsReadyToDecrypt net r) \<and>
        chain_VerifyBeacon cr \<lparr>ID = UnchainedSchemeID, DecouplePrevSig = True\<rparr>
          \<lparr>Round = r, Signature = fst (IsReadyToDecrypt net r)\<rparr> (PublicKey net) = None
        \<and> g2_UnmarshalBinary cr (fst (IsReadyToDecrypt net r)) = Inr sg
        \<and> g1_UnmarshalBinary cr (kyberPoint cd) = Inr kp
        \<and> ibe_Decrypt cr sg \<lparr>U = kp, V = cipherV cd, W = cipherW cd\<rparr> = Inl e \<longrightarrow>
        decryptDEK cr cd net r = (decrypt_steps, Inl (Wrapf ''decrypt dek: %w'' e)))
   \<and> (snd (IsReadyToDecrypt net r) \<and>
        chain_VerifyBeacon cr \<lparr>ID = UnchainedSchemeID, DecouplePrevSig = True\<rparr>
          \<lparr>Round = r, Signature = fst (IsReadyToDecrypt net r)\<rparr> (PublicKey net) = None
        \<and> g2_UnmarshalBinary cr (fst (IsReadyToDecrypt net r)) = Inr sg
        \<and> g1_UnmarshalBinary cr (kyberPoint cd) = Inr kp
        \<and> ibe_Decrypt cr sg \<lparr>U = kp, V = cipherV cd, W = cipherW cd\<rparr> = Inr k \<longrightarrow>
        decryptDEK cr cd net r = (decrypt_steps, Inr k))"
proof -
  have order: "prefix (fst (Unwrap cr net ss)) unwrap_steps"
    using decryptDEK_prefix [of cr _ net]
    by (auto simp: Unwrap_cases Let_def unwrap_steps_def decrypt_steps_def split: sum.splits)
  have early: "(fst (Unwrap cr net ss) \<noteq> unwrap_steps \<longrightarrow> (\<exists>e. snd (Unwrap cr net ss) = Inl e))"
    using decryptDEK_Inr [of cr _ net]
    by (auto simp: Unwrap_cases Let_def unwrap_steps_def decrypt_steps_def split: sum.splits)
  have dec: "(IBEDecrypt \<in> set (fst (Unwrap cr net ss)) \<longrightarrow>
        (\<exists>s r. ss = [s] \<and> ParseUint (Args s ! 0) = Inr r \<and> snd (IsReadyToDecrypt net r) \<and>
           chain_VerifyBeacon cr \<lparr>ID = UnchainedSchemeID, DecouplePrevSig = True\<rparr>
             \<lparr>Round = r, Signature = fst (IsReadyToDecrypt net r)\<rparr> (PublicKey net) = None))"
  proof
    assume a: "IBEDecrypt \<in> set (fst (Unwrap cr net ss))"
    then have "length ss = 1"
      by (auto simp: Unwrap_cases split: if_splits)
    then obtain s where ss: "ss = [s]"
      by (cases ss) auto
    from a ss obtain r cd' where r: "ParseUint (Args s ! 0) = Inr r"
      and d: "IBEDecrypt \<in> set (fst (decryptDEK cr cd' net r))"
      by (auto simp: Unwrap_cases Let_def split: if_splits sum.splits)
    from decryptDEK_IBEDecrypt [OF d] ss r show
      "\<exists>s r. ss = [s] \<and> ParseUint (Args s ! 0) = Inr r \<and> snd (IsReadyToDecrypt net r) \<and>
           chain_VerifyBeacon cr \<lparr>ID = UnchainedSchemeID, DecouplePrevSig = True\<rparr>
             \<lparr>Round = r, Signature = fst (IsReadyToDecrypt net r)\<rparr> (PublicKey net) = None"
      by blast
  qed
  have dorder: "prefix (fst (decryptDEK cr cd net r')) decrypt_steps"
    by (rule decryptDEK_prefix)
  have ddec: "(IBEDecrypt \<in> set (fst (decryptDEK cr cd net r')) \<longrightarrow>
        snd (IsReadyToDecrypt net r') \<and>
        chain_VerifyBeacon cr \<lparr>ID = UnchainedSchemeID, DecouplePrevSig = True\<rparr>
          \<lparr>Round = r', Signature = fst (IsReadyToDecrypt net r')\<rparr> (PublicKey net) = None)"
    using decryptDEK_IBEDecrypt by blast
  have verify: "(snd (IsReadyToDecrypt net r'') \<and>
        chain_VerifyBeacon cr \<lparr>ID = UnchainedSchemeID, DecouplePrevSig = True\<rparr>
          \<lparr>Round = r'', Signature = fst (IsReadyToDecrypt net r'')\<rparr> (PublicKey net) = Some e \<longrightarrow>
        decryptDEK cr cd net r'' = ([QueryNetwork, VerifyBeacon], Inl (Wrapf ''verify beacon: %w'' e))
        \<and> (\<forall>s. ParseUint (Args s ! 0) = Inr r'' \<longrightarrow> IBEDecrypt \<notin> set (fst (Unwrap cr net [s]))
                 \<and> (\<exists>e'. snd (Unwrap cr net [s]) = Inl e')))"
    by (auto simp: decryptDEK_verify_fails Unwrap_cases Let_def)
  have count: "(length ss \<noteq> 1 \<longrightarrow>
        Unwrap cr net ss = ([], Inl (ErrorsNew ''check stanzas length: should be one'')))"
    by (simp add: Unwrap_def)
  have wrongtype: "(Type s \<noteq> ''tlock'' \<longrightarrow>
        Unwrap cr net [s] =
          ([CheckType], Inl (Wrapf ''check stanza type: wrong type: %w'' ErrIncorrectIdentity)))"
    by (simp add: Unwrap_def)
  have args: "(Type s = ''tlock'' \<and> length (Args s) \<noteq> 2 \<longrightarrow>
        Unwrap cr net [s] =
          ([CheckType, CheckArgs],
           Inl (Wrapf ''check stanza args: should be two: %w'' ErrIncorrectIdentity)))"
    by (simp add: Unwrap_def)
  have round: "(Type s = ''tlock'' \<and> length (Args s) = 2 \<and> ParseUint (Args s ! 0) = Inl e \<longrightarrow>
        Unwrap cr net [s] =
          ([CheckType, CheckArgs, ParseRound], Inl (Wrapf ''parse block round: %w'' e)))"
    by (simp add: Unwrap_def)
  have chain: "(Type s = ''tlock'' \<and> length (Args s) = 2 \<and> ParseUint (Args s ! 0) = Inr r
        \<and> ChainHash net \<noteq> Args s ! 1 \<longrightarrow>
        Unwrap cr net [s] =
          ([CheckType, CheckArgs, ParseRound, CheckChain], Inl (ErrorsNew ''wrong chainhash'')))"
    by (simp add: Unwrap_def)
  have body: "(Type s = ''tlock'' \<and> length (Args s) = 2 \<and> ParseUint (Args s ! 0) = Inr r
        \<and> ChainHash net = Args s ! 1 \<and> parseCipherDEK (Body s) = Inl e \<longrightarrow>
        Unwrap cr net [s] =
          ([CheckType, CheckArgs, ParseRound, CheckChain, ParseBody],
           Inl (Wrapf ''parse cipher dek: %w'' e)))"
    by (simp add: Unwrap_def)
  have call: "(Type s = ''tlock'' \<and> length (Args s) = 2 \<and> ParseUint (Args s ! 0) = Inr r
        \<and> ChainHash net = Args s ! 1 \<and> parseCipherDEK (Body s) = Inr cd \<longrightarrow>
        fst (Unwrap cr net [s]) =
          [CheckType, CheckArgs, ParseRound, CheckChain, ParseBody] @ fst (decryptDEK cr cd net r)
        \<and> snd (Unwrap cr net [s]) =
          (case snd (decryptDEK cr cd net r) of
             Inl e' \<Rightarrow> Inl (Wrapf ''decrypt dek: %w'' e')
           | Inr k' \<Rightarrow> Inr k'))"
    by (simp add: Unwrap_def split_beta split: sum.splits)
  have ready: "(\<not> snd (IsReadyToDecrypt net r) \<longrightarrow>
        decryptDEK cr cd net r = ([QueryNetwork], Inl ErrTooEarly))"
    by (simp add: decryptDEK_not_ready)
  have g2: "(snd (IsReadyToDecrypt net r) \<and>
        chain_VerifyBeacon cr \<lparr>ID = UnchainedSchemeID, DecouplePrevSig = True\<rparr>
          \<lparr>Round = r, Signature = fst (IsReadyToDecrypt net r)\<rparr> (PublicKey net) = None
        \<and> g2_UnmarshalBinary cr (fst (IsReadyToDecrypt net r)) = Inl e \<longrightarrow>
        decryptDEK cr cd net r =
          ([QueryNetwork, VerifyBeacon, UnmarshalG2], Inl (Wrapf ''unmarshal kyber G2: %w'' e)))"
    by (simp add: decryptDEK_def Let_def split_beta)
  have g1: "(snd (IsReadyToDecrypt net r) \<and>
        chain_VerifyBeacon cr \<lparr>ID = UnchainedSchemeID, DecouplePrevSig = True\<rparr>
          \<lparr>Round = r, Signature = fst (IsReadyToDecrypt net r)\<rparr> (PublicKey net) = None
        \<and> g2_UnmarshalBinary cr (fst (IsReadyToDecrypt net r)) = Inr sg
        \<and> g1_UnmarshalBinary cr (kyberPoint cd) = Inl e \<longrightarrow>
        decryptDEK cr cd net r =
          ([QueryNetwork, VerifyBeacon, UnmarshalG2, UnmarshalG1],
           Inl (Wrapf ''unmarshal kyber G1: %w'' e)))"
    by (simp add: decryptDEK_def Let_def split_beta)
  have ibe: "(snd (IsReadyToDecrypt net r) \<and>
        chain_VerifyBeacon cr \<lparr>ID = UnchainedSchemeID, DecouplePrevSig = True\<rparr>
          \<lparr>Round = r, Signature = fst (IsReadyToDecrypt net r)\<rparr> (PublicKey net) = None
        \<and> g2_UnmarshalBinary cr (fst (IsReadyToDecrypt net r)) = Inr sg
        \<and> g1_UnmarshalBinary cr (kyberPoint cd) = Inr kp
        \<and> ibe_Decrypt cr sg \<lparr>U = kp, V = cipherV cd, W = cipherW cd\<rparr> = Inl e \<longrightarrow>
        decryptDEK cr cd net r = (decrypt_steps, Inl (Wrapf ''decrypt dek: %w'' e)))"
    by (simp add: decryptDEK_def decrypt_steps_def Let_def split_beta)
  have success: "(snd (IsReadyToDecrypt net r) \<and>
        chain_VerifyBeacon cr \<lparr>ID = UnchainedSchemeID, DecouplePrevSig = True\<rparr>
          \<lparr>Round = r, Signature = fst (IsReadyToDecrypt net r)\<rparr> (PublicKey net) = None
        \<and> g2_UnmarshalBinary cr (fst (IsReadyToDecrypt net r)) = Inr sg
        \<and> g1_UnmarshalBinary cr (kyberPoint cd) = Inr kp
        \<and> ibe_Decrypt cr sg \<lparr>U = kp, V = cipherV cd, W = cipherW cd\<rparr> = Inr k \<longrightarrow>
        decryptDEK cr cd net r = (decrypt_steps, Inr k))"
    by (simp add: decryptDEK_def decrypt_steps_def Let_def split_beta)
  from order early dec dorder ddec verify count wrongtype args round chain body call ready g2 g1 ibe success show ?thesis
    by (intro conjI)
qed

theorem decrypt_after_verify_witness:
  "Unwrap toy_crypto toy_network [stanza_round5] = (unwrap_steps, Inr (replicate 16 9))
   \<and> IBEDecrypt \<in> set (fst (Unwrap toy_crypto toy_network [stanza_round5]))
   \<and> chain_VerifyBeacon toy_crypto \<lparr>ID = UnchainedSchemeID, DecouplePrevSig = True\<rparr>
        \<lparr>Round = 5, Signature = fst (IsReadyToDecrypt toy_network 5)\<rparr> (PublicKey toy_network) = None
   \<and> snd (IsReadyToDecrypt toy_network 60) \<and>
        chain_VerifyBeacon toy_crypto \<lparr>ID = UnchainedSchemeID, DecouplePrevSig = True\<rparr>
        \<lparr>Round = 60, Signature = fst (IsReadyToDecrypt toy_network 60)\<rparr> (PublicKey toy_network) = Some (LibError ''invalid signature'')
   \<and> decryptDEK toy_crypto cd5 toy_network 60 =
        ([QueryNetwork, VerifyBeacon],
         Inl (Wrapf ''verify beacon: %w'' (LibError ''invalid signature'')))
   \<and> Unwrap toy_crypto toy_network [] = ([], Inl (ErrorsNew ''check stanzas length: should be one''))
   \<and> Unwrap toy_crypto toy_network [stanza_x25519] =
        ([CheckType], Inl (Wrapf ''check stanza type: wrong type: %w'' ErrIncorrectIdentity))
   \<and> Unwrap toy_crypto toy_network [stanza_one_arg] =
        ([CheckType, CheckArgs],
         Inl (Wrapf ''check stanza args: should be two: %w'' ErrIncorrectIdentity))
   \<and> Unwrap toy_crypto toy_network [stanza_bad_round] =
        ([CheckType, CheckArgs, ParseRound],
         Inl (Wrapf ''parse block round: %w'' (NumError ''ParseUint'' ''12a'' ErrSyntax)))
   \<and> Unwrap toy_crypto other_network [stanza_round5] =
        ([CheckType, CheckArgs, ParseRound, CheckChain], Inl (ErrorsNew ''wrong chainhash''))
   \<and> Unwrap toy_crypto toy_network [stanza_truncated] =
        ([CheckType, CheckArgs, ParseRound, CheckChain, ParseBody],
         Inl (Wrapf ''parse cipher dek: %w'' (Errorf ''incorrect length: exp: 80 got: 79'')))
   \<and> Unwrap toy_crypto toy_network [stanza_round1000] =
        ([CheckType, CheckArgs, ParseRound, CheckChain, ParseBody, QueryNetwork],
         Inl (Wrapf ''decrypt dek: %w'' ErrTooEarly))
   \<and> decryptDEK toy_crypto cd5 toy_network 1000 = ([QueryNetwork], Inl ErrTooEarly)
   \<and> decryptDEK crypto_bad_g2 cd5 toy_network 5 =
        ([QueryNetwork, VerifyBeacon, UnmarshalG2],
         Inl (Wrapf ''unmarshal kyber G2: %w'' (LibError ''bad G2 point'')))
   \<and> decryptDEK crypto_bad_g1 cd5 toy_network 5 =
        ([QueryNetwork, VerifyBeacon, UnmarshalG2, UnmarshalG1],
         Inl (Wrapf ''unmarshal kyber G1: %w'' (LibError ''bad G1 point'')))
   \<and> decryptDEK crypto_bad_decrypt cd5 toy_network 5 =
        (decrypt_steps, Inl (Wrapf ''decrypt dek: %w'' (LibError ''invalid proof'')))
   \<and> decryptDEK toy_crypto cd5 toy_network 5 = (decrypt_steps, Inr (replicate 16 9))"
proof -
  have h_count: "length ([] :: stanza list) \<noteq> 1"
    by simp
  have c_count: "Unwrap toy_crypto toy_network [] = ([], Inl (ErrorsNew ''check stanzas length: should be one''))"
    by (rule decrypt_after_verify [where cr = toy_crypto and net = toy_network and ss = "[]",
        THEN conjunct2, THEN conjunct2, THEN conjunct2, THEN conjunct2, THEN conjunct2, THEN conjunct2, THEN conjunct1, THEN mp, OF h_count])
  have h_wrongtype: "Type stanza_x25519 \<noteq> ''tlock''"
    by code_simp
  have c_wrongtype: "Unwrap toy_crypto toy_network [stanza_x25519] =
        ([CheckType], Inl (Wrapf ''check stanza type: wrong type: %w'' ErrIncorrectIdentity))"
    by (rule decrypt_after_verify [where cr = toy_crypto and net = toy_network and s = stanza_x25519,
        THEN conjunct2, THEN conjunct2, THEN conjunct2, THEN conjunct2, THEN conjunct2, THEN conjunct2, THEN conjunct2, THEN conjunct1, THEN mp, OF h_wrongtype])
  have h_args: "Type stanza_one_arg = ''tlock'' \<and> length (Args stanza_one_arg) \<noteq> 2"
    by code_simp
  have c_args: "Unwrap toy_crypto toy_network [stanza_one_arg] =
        ([CheckType, CheckArgs],
         Inl (Wrapf ''check stanza args: should be two: %w'' ErrIncorrectIdentity))"
    by (rule decrypt_after_verify [where cr = toy_crypto and net = toy_network and s = stanza_one_arg,
        THEN conjunct2, THEN conjunct2, THEN conjunct2, THEN conjunct2, THEN conjunct2, THEN conjunct2, THEN conjunct2, THEN conjunct2, THEN conjunct1, THEN mp, OF h_args])
  have h_round: "Type stanza_bad_round = ''tlock'' \<and> length (Args stanza_bad_round) = 2
        \<and> ParseUint (Args stanza_bad_round ! 0) = Inl (NumError ''ParseUint'' ''12a'' ErrSyntax)"
    by code_simp
  have c_round: "Unwrap toy_crypto toy_network [stanza_bad_round] =
        ([CheckType, CheckArgs, ParseRound],
         Inl (Wrapf ''parse block round: %w'' (NumError ''ParseUint'' ''12a'' ErrSyntax)))"
    by (rule decrypt_after_verify [where cr = toy_crypto and net = toy_network and s = stanza_bad_round,
        THEN conjunct2, THEN conjunct2, THEN conjunct2, THEN conjunct2, THEN conjunct2, THEN conjunct2, THEN conjunct2, THEN conjunct2, THEN conjunct2, THEN conjunct1, THEN mp, OF h_round])
  have h_chain: "Type stanza_round5 = ''tlock'' \<and> length (Args stanza_round5) = 2 \<and> ParseUint (Args stanza_round5 ! 0) = Inr 5
        \<and> ChainHash other_network \<noteq> Args stanza_round5 ! 1"
    by code_simp
  have c_chain: "Unwrap toy_crypto other_network [stanza_round5] =
        ([CheckType, CheckArgs, ParseRound, CheckChain], Inl (ErrorsNew ''wrong chainhash''))"
    by (rule decrypt_after_verify [where cr = toy_crypto and net = other_network and s = stanza_round5,
        THEN conjunct2, THEN conjunct2, THEN conjunct2, THEN conjunct2, THEN conjunct2, THEN conjunct2, THEN conjunct2, THEN conjunct2, THEN conjunct2, THEN conjunct2, THEN conjunct1, THEN mp, OF h_chain])
  have h_body: "Type stanza_truncated = ''tlock'' \<and> length (Args stanza_truncated) = 2 \<and> ParseUint (Args stanza_truncated ! 0) = Inr 1000
        \<and> ChainHash toy_network = Args stanza_truncated ! 1
        \<and> parseCipherDEK (Body stanza_truncated) =
            Inl (Errorf ''incorrect length: exp: 80 got: 79'')"
    by code_simp
  have c_body: "Unwrap toy_crypto toy_network [stanza_truncated] =
        ([CheckType, CheckArgs, ParseRound, CheckChain, ParseBody],
         Inl (Wrapf ''parse cipher dek: %w'' (Errorf ''incorrect length: exp: 80 got: 79'')))"
    by (rule decrypt_after_verify [where cr = toy_crypto and net = toy_network and s = stanza_truncated,
        THEN conjunct2, THEN conjunct2, THEN conjunct2, THEN conjunct2, THEN conjunct2, THEN conjunct2, THEN conjunct2, THEN conjunct2, THEN conjunct2, THEN conjunct2, THEN conjunct2, THEN conjunct1, THEN mp, OF h_body])
  have h_call1000: "Type stanza_round1000 = ''tlock'' \<and> length (Args stanza_round1000) = 2 \<and> ParseUint (Args stanza_round1000 ! 0) = Inr 1000
        \<and> ChainHash toy_network = Args stanza_round1000 ! 1 \<and> parseCipherDEK (Body stanza_round1000) = Inr cd5"
    by code_simp
  have c_call1000: "fst (Unwrap toy_crypto toy_network [stanza_round1000]) =
          [CheckType, CheckArgs, ParseRound, CheckChain, ParseBody] @ fst (decryptDEK toy_crypto cd5 toy_network 1000)
        \<and> snd (Unwrap toy_crypto toy_network [stanza_round1000]) =
          (case snd (decryptDEK toy_crypto cd5 toy_network 1000) of
             Inl e' \<Rightarrow> Inl (Wrapf ''decrypt dek: %w'' e')
           | Inr k' \<Rightarrow> Inr k')"
    by (rule decrypt_after_verify [where cr = toy_crypto and net = toy_network and s = stanza_round1000,
        THEN conjunct2, THEN conjunct2, THEN conjunct2, THEN conjunct2, THEN conjunct2, THEN conjunct2, THEN conjunct2, THEN conjunct2, THEN conjunct2, THEN conjunct2, THEN conjunct2, THEN conjunct2, THEN conjunct1, THEN mp, OF h_call1000])
  have h_call5: "Type stanza_round5 = ''tlock'' \<and> length (Args stanza_round5) = 2 \<and> ParseUint (Args stanza_round5 ! 0) = Inr 5
        \<and> ChainHash toy_network = Args stanza_round5 ! 1 \<and> parseCipherDEK (Body stanza_round5) = Inr cd5"
    by code_simp
  have c_call5: "fst (Unwrap toy_crypto toy_network [stanza_round5]) =
          [CheckType, CheckArgs, ParseRound, CheckChain, ParseBody] @ fst (decryptDEK toy_crypto cd5 toy_network 5)
        \<and> snd (Unwrap toy_crypto toy_network [stanza_round5]) =
          (case snd (decryptDEK toy_crypto cd5 toy_network 5) of
             Inl e' \<Rightarrow> Inl (Wrapf ''decrypt dek: %w'' e')
           | Inr k' \<Rightarrow> Inr k')"
    by (rule decrypt_after_verify [where cr = toy_crypto and net = toy_network and s = stanza_round5,
        THEN conjunct2, THEN conjunct2, THEN conjunct2, THEN conjunct2, THEN conjunct2, THEN conjunct2, THEN conjunct2, THEN conjunct2, THEN conjunct2, THEN conjunct2, THEN conjunct2, THEN conjunct2, THEN conjunct1, THEN mp, OF h_call5])
  have h_ready: "\<not> snd (IsReadyToDecrypt toy_network 1000)"
    by code_simp
  have c_ready: "decryptDEK toy_crypto cd5 toy_network 1000 = ([QueryNetwork], Inl ErrTooEarly)"
    by (rule decrypt_after_verify [where cr = toy_crypto and net = toy_network and r = 1000 and cd = cd5,
        THEN conjunct2, THEN conjunct2, THEN conjunct2, THEN conjunct2, THEN conjunct2, THEN conjunct2, THEN conjunct2, THEN conjunct2, THEN conjunct2, THEN conjunct2, THEN conjunct2, THEN conjunct2, THEN conjunct2, THEN conjunct1, THEN mp, OF h_ready])
  have h_g2: "snd (IsReadyToDecrypt toy_network 5) \<and>
        chain_VerifyBeacon crypto_bad_g2 \<lparr>ID = UnchainedSchemeID, DecouplePrevSig = True\<rparr>
        \<lparr>Round = 5, Signature = fst (IsReadyToDecrypt toy_network 5)\<rparr> (PublicKey toy_network) = None
        \<and> g2_UnmarshalBinary crypto_bad_g2 (fst (IsReadyToDecrypt toy_network 5)) = Inl (LibError ''bad G2 point'')"
    by code_simp
  have c_g2: "decryptDEK crypto_bad_g2 cd5 toy_network 5 =
        ([QueryNetwork, VerifyBeacon, UnmarshalG2],
         Inl (Wrapf ''unmarshal kyber G2: %w'' (LibError ''bad G2 point'')))"
    by (rule decrypt_after_verify [where cr = crypto_bad_g2 and net = toy_network and r = 5 and cd = cd5,
        THEN conjunct2, THEN conjunct2, THEN conjunct2, THEN conjunct2, THEN conjunct2, THEN conjunct2, THEN conjunct2, THEN conjunct2, THEN conjunct2, THEN conjunct2, THEN conjunct2, THEN conjunct2, THEN conjunct2, THEN conjunct2, THEN conjunct1, THEN mp, OF h_g2])
  have h_g1: "snd (IsReadyToDecrypt toy_network 5) \<and>
        chain_VerifyBeacon crypto_bad_g1 \<lparr>ID = UnchainedSchemeID, DecouplePrevSig = True\<rparr>
        \<lparr>Round = 5, Signature = fst (IsReadyToDecrypt toy_network 5)\<rparr> (PublicKey toy_network) = None
        \<and> g2_UnmarshalBinary crypto_bad_g1 (fst (IsReadyToDecrypt toy_network 5)) = Inr [7]
        \<and> g1_UnmarshalBinary crypto_bad_g1 (kyberPoint cd5) = Inl (LibError ''bad G1 point'')"
    by code_simp
  have c_g1: "decryptDEK crypto_bad_g1 cd5 toy_network 5 =
        ([QueryNetwork, VerifyBeacon, UnmarshalG2, UnmarshalG1],
         Inl (Wrapf ''unmarshal kyber G1: %w'' (LibError ''bad G1 point'')))"
    by (rule decrypt_after_verify [where cr = crypto_bad_g1 and net = toy_network and r = 5 and cd = cd5,
        THEN conjunct2, THEN conjunct2, THEN conjunct2, THEN conjunct2, THEN conjunct2, THEN conjunct2, THEN conjunct2, THEN conjunct2, THEN conjunct2, THEN conjunct2, THEN conjunct2, THEN conjunct2, THEN conjunct2, THEN conjunct2, THEN conjunct2, THEN conjunct1, THEN mp, OF h_g1])
  have h_ibe: "snd (IsReadyToDecrypt toy_network 5) \<and>
        chain_VerifyBeacon crypto_bad_decrypt \<lparr>ID = UnchainedSchemeID, DecouplePrevSig = True\<rparr>
        \<lparr>Round = 5, Signature = fst (IsReadyToDecrypt toy_network 5)\<rparr> (PublicKey toy_network) = None
        \<and> g2_UnmarshalBinary crypto_bad_decrypt (fst (IsReadyToDecrypt toy_network 5)) = Inr [7]
        \<and> g1_UnmarshalBinary crypto_bad_decrypt (kyberPoint cd5) = Inr (replicate 48 3)
        \<and> ibe_Decrypt crypto_bad_decrypt [7] \<lparr>U = (replicate 48 3), V = cipherV cd5, W = cipherW cd5\<rparr> = Inl (LibError ''invalid proof'')"
    by code_simp
  have c_ibe: "decryptDEK crypto_bad_decrypt cd5 toy_network 5 =
        (decrypt_steps, Inl (Wrapf ''decrypt dek: %w'' (LibError ''invalid proof'')))"
    by (rule decrypt_after_verify [where cr = crypto_bad_decrypt and net = toy_network and r = 5 and cd = cd5,
        THEN conjunct2, THEN conjunct2, THEN conjunct2, THEN conjunct2, THEN conjunct2, THEN conjunct2, THEN conjunct2, THEN conjunct2, THEN conjunct2, THEN conjunct2, THEN conjunct2, THEN conjunct2, THEN conjunct2, THEN conjunct2, THEN conjunct2, THEN conjunct2, THEN conjunct1, THEN mp, OF h_ibe])
  have h_success: "snd (IsReadyToDecrypt toy_network 5) \<and>
        chain_VerifyBeacon toy_crypto \<lparr>ID = UnchainedSchemeID, DecouplePrevSig = True\<rparr>
        \<lparr>Round = 5, Signature = fst (IsReadyToDecrypt toy_network 5)\<rparr> (PublicKey toy_network) = None
        \<and> g2_UnmarshalBinary toy_crypto (fst (IsReadyToDecrypt toy_network 5)) = Inr [7]
        \<and> g1_UnmarshalBinary toy_crypto (kyberPoint cd5) = Inr (replicate 48 3)
        \<and> ibe_Decrypt toy_crypto [7] \<lparr>U = (replicate 48 3), V = cipherV cd5, W = cipherW cd5\<rparr> = Inr (replicate 16 9)"
    by code_simp
  have c_success: "decryptDEK toy_crypto cd5 toy_network 5 = (decrypt_steps, Inr (replicate 16 9))"
    by (rule decrypt_after_verify [where cr = toy_crypto and net = toy_network and r = 5 and cd = cd5,
        THEN conjunct2, THEN conjunct2, THEN conjunct2, THEN conjunct2, THEN conjunct2, THEN conjunct2, THEN conjunct2, THEN conjunct2, THEN conjunct2, THEN conjunct2, THEN conjunct2, THEN conjunct2, THEN conjunct2, THEN conjunct2, THEN conjunct2, THEN conjunct2, THEN conjunct2, THEN mp, OF h_success])
  have h_verify: "snd (IsReadyToDecrypt toy_network 60) \<and>
        chain_VerifyBeacon toy_crypto \<lparr>ID = UnchainedSchemeID, DecouplePrevSig = True\<rparr>
        \<lparr>Round = 60, Signature = fst (IsReadyToDecrypt toy_network 60)\<rparr> (PublicKey toy_network) = Some (LibError ''invalid signature'')"
    by code_simp
  have c_verify: "decryptDEK toy_crypto cd5 toy_network 60 =
        ([QueryNetwork, VerifyBeacon],
         Inl (Wrapf ''verify beacon: %w'' (LibError ''invalid signature'')))"
    by (rule decrypt_after_verify [where cr = toy_crypto and net = toy_network and r'' = 60
        and cd = cd5, THEN conjunct2, THEN conjunct2, THEN conjunct2, THEN conjunct2, THEN conjunct2, THEN conjunct1, THEN mp, OF h_verify, THEN conjunct1])
  from c_call1000 c_ready have c_early: "Unwrap toy_crypto toy_network [stanza_round1000] =
        ([CheckType, CheckArgs, ParseRound, CheckChain, ParseBody, QueryNetwork],
         Inl (Wrapf ''decrypt dek: %w'' ErrTooEarly))"
    by (simp add: prod_eq_iff)
  from c_call5 c_success have c_full: "Unwrap toy_crypto toy_network [stanza_round5] = (unwrap_steps, Inr (replicate 16 9))"
    by (simp add: prod_eq_iff unwrap_steps_def decrypt_steps_def)
  then have c_in: "IBEDecrypt \<in> set (fst (Unwrap toy_crypto toy_network [stanza_round5]))"
    by (simp add: unwrap_steps_def)
  have c_dec: "chain_VerifyBeacon toy_crypto \<lparr>ID = UnchainedSchemeID, DecouplePrevSig = True\<rparr>
        \<lparr>Round = 5, Signature = fst (IsReadyToDecrypt toy_network 5)\<rparr> (PublicKey toy_network) = None"
    using decrypt_after_verify [where cr = toy_crypto and net = toy_network
        and ss = "[stanza_round5]", THEN conjunct2, THEN conjunct2, THEN conjunct1, THEN mp, OF c_in]
      stanza_round5_checks(3)
    by auto
  from c_full c_in c_dec h_verify [THEN conjunct1] h_verify [THEN conjunct2] c_verify c_count c_wrongtype c_args c_round c_chain c_body c_early c_ready c_g2 c_g1 c_ibe c_success
  show ?thesis
    by (intro conjI)
qed

end
